theory Spec2Isabelle
  imports Main "HOL-Library.Word" "HOL-Library.FSet"
begin

section \<open>Data model of the volumerestrictions plugin\<close>

text \<open>
  The plugin lives in \<^verbatim>\<open>pkg/scheduler/framework/plugins/volumerestrictions/volume_restrictions.go\<close>.
  The types of \<^verbatim>\<open>k8s.io/api/core/v1\<close> and of the scheduler framework are declared
  outside that file; the records below carry exactly the fields that the plugin reads.
  A nullable pointer field of a Go struct is an \<open>option\<close>.
\<close>

record GCEPersistentDiskVolumeSource =
  PDName :: string
  GCE_ReadOnly :: bool

record AWSElasticBlockStoreVolumeSource =
  VolumeID :: string
  AWS_ReadOnly :: bool

record ISCSIVolumeSource =
  IQN :: string
  ISCSI_ReadOnly :: bool

record RBDVolumeSource =
  CephMonitors :: "string list"
  RBDPool :: string
  RBDImage :: string
  RBD_ReadOnly :: bool

record PersistentVolumeClaimVolumeSource =
  ClaimName :: string

text \<open>
  \<^verbatim>\<open>v1.Volume\<close> embeds \<^verbatim>\<open>v1.VolumeSource\<close>, a struct of nullable pointers, one per
  backend kind. The Go type does not force exactly one of them to be set, so the model
  keeps one optional field per kind that the plugin looks at; every other kind of volume
  has all five fields \<open>None\<close>.
\<close>

record Volume =
  GCEPersistentDisk :: "GCEPersistentDiskVolumeSource option"
  AWSElasticBlockStore :: "AWSElasticBlockStoreVolumeSource option"
  ISCSI :: "ISCSIVolumeSource option"
  RBD :: "RBDVolumeSource option"
  PersistentVolumeClaim :: "PersistentVolumeClaimVolumeSource option"

record PodSpec =
  Volumes :: "Volume list"

record Pod =
  Pod_Namespace :: string
  Spec :: PodSpec

record PodInfo =
  Pod :: Pod

record NodeInfo =
  Pods :: "PodInfo list"

section \<open>Conflict matcher\<close>

text \<open>
  \<^verbatim>\<open>haveOverlap\<close> swaps its arguments so that the lookup set is built from the shorter
  slice, then probes the other slice and returns at the first hit.
\<close>

fun haveOverlap_probe :: "string fset \<Rightarrow> string list \<Rightarrow> bool" where
  "haveOverlap_probe m [] = False"
| "haveOverlap_probe m (val # rest) = (if val |\<in>| m then True else haveOverlap_probe m rest)"

definition haveOverlap :: "string list \<Rightarrow> string list \<Rightarrow> bool" where
  "haveOverlap a1 a2 =
     (let (b1, b2) = (if length a1 > length a2 then (a2, a1) else (a1, a2));
          m = fset_of_list b1
      in haveOverlap_probe m b2)"

text \<open>
  The four tests in the body of the loop of \<^verbatim>\<open>isVolumeConflict\<close>, each guarded by
  both volumes having the backend's pointer set.
\<close>

definition gceConflict :: "Volume \<Rightarrow> Volume \<Rightarrow> bool" where
  "gceConflict volume existingVolume =
     (case (GCEPersistentDisk volume, GCEPersistentDisk existingVolume) of
        (Some disk, Some existingDisk) \<Rightarrow>
          PDName disk = PDName existingDisk \<and> \<not> (GCE_ReadOnly disk \<and> GCE_ReadOnly existingDisk)
      | _ \<Rightarrow> False)"

definition awsConflict :: "Volume \<Rightarrow> Volume \<Rightarrow> bool" where
  "awsConflict volume existingVolume =
     (case (AWSElasticBlockStore volume, AWSElasticBlockStore existingVolume) of
        (Some ebs, Some existingEbs) \<Rightarrow> VolumeID ebs = VolumeID existingEbs
      | _ \<Rightarrow> False)"

definition iscsiConflict :: "Volume \<Rightarrow> Volume \<Rightarrow> bool" where
  "iscsiConflict volume existingVolume =
     (case (ISCSI volume, ISCSI existingVolume) of
        (Some i, Some ei) \<Rightarrow>
          (let iqn = IQN i; eiqn = IQN ei
           in iqn = eiqn \<and> \<not> (ISCSI_ReadOnly i \<and> ISCSI_ReadOnly ei))
      | _ \<Rightarrow> False)"

definition rbdConflict :: "Volume \<Rightarrow> Volume \<Rightarrow> bool" where
  "rbdConflict volume existingVolume =
     (case (RBD volume, RBD existingVolume) of
        (Some r, Some er) \<Rightarrow>
          (let mon = CephMonitors r; pool = RBDPool r; image = RBDImage r;
               emon = CephMonitors er; epool = RBDPool er; eimage = RBDImage er
           in haveOverlap mon emon \<and> pool = epool \<and> image = eimage
              \<and> \<not> (RBD_ReadOnly r \<and> RBD_ReadOnly er))
      | _ \<Rightarrow> False)"

fun isVolumeConflict_loop :: "Volume \<Rightarrow> Volume list \<Rightarrow> bool" where
  "isVolumeConflict_loop volume [] = False"
| "isVolumeConflict_loop volume (existingVolume # rest) =
     (if gceConflict volume existingVolume then True
      else if awsConflict volume existingVolume then True
      else if iscsiConflict volume existingVolume then True
      else if rbdConflict volume existingVolume then True
      else isVolumeConflict_loop volume rest)"

definition isVolumeConflict :: "Volume \<Rightarrow> Pod \<Rightarrow> bool" where
  "isVolumeConflict volume pod = isVolumeConflict_loop volume (Volumes (Spec pod))"

definition needsRestrictionsCheck :: "Volume \<Rightarrow> bool" where
  "needsRestrictionsCheck v =
     (GCEPersistentDisk v \<noteq> None \<or> AWSElasticBlockStore v \<noteq> None \<or> RBD v \<noteq> None \<or> ISCSI v \<noteq> None)"


section \<open>Collaborators of the plugin\<close>

record PersistentVolumeClaimSpec =
  AccessModes :: "string list"

record PersistentVolumeClaim =
  PVC_Namespace :: string
  PVC_Name :: string
  PVC_Spec :: PersistentVolumeClaimSpec

definition ReadWriteOncePod :: string where
  "ReadWriteOncePod = ''ReadWriteOncePod''"

text \<open>
  Errors are values. \<open>ErrClaimNotFound\<close> stands for the errors on which
  \<^verbatim>\<open>apierrors.IsNotFound\<close> answers true, \<open>ErrClaimLookup\<close> for every other error of the
  claim lister; \<open>CycleState_ErrNotFound\<close> is the framework's error for a key that the
  cycle state lacks; the remaining three are built by the plugin itself with
  \<^verbatim>\<open>fmt.Errorf\<close> and carry the text that \<^verbatim>\<open>err.Error()\<close> returns.
\<close>

datatype error =
    ErrClaimNotFound string
  | ErrClaimLookup string
  | CycleState_ErrNotFound
  | ErrCannotRead string
  | ErrConvert string
  | ErrUnexpectedObjects string

fun IsNotFound :: "error \<Rightarrow> bool" where
  "IsNotFound (ErrClaimNotFound msg) = True"
| "IsNotFound _ = False"

fun Error_text :: "error \<Rightarrow> string" where
  "Error_text (ErrClaimNotFound msg) = msg"
| "Error_text (ErrClaimLookup msg) = msg"
| "Error_text CycleState_ErrNotFound = ''not found''"
| "Error_text (ErrCannotRead msg) = msg"
| "Error_text (ErrConvert msg) = msg"
| "Error_text (ErrUnexpectedObjects msg) = msg"

text \<open>
  A panic is returned as a value: the dereference of a nil pointer, and the type
  assertion of a nil interface value to an interface type.
\<close>

datatype panic = NilPointerDereference | InterfaceConversion

text \<open>
  The plugin struct. \<open>pvcLister\<close> is the point lookup
  \<^verbatim>\<open>pvcLister.PersistentVolumeClaims(namespace).Get(name)\<close>; \<open>sharedLister\<close> is
  \<^verbatim>\<open>sharedLister.StorageInfos().IsPVCUsedByPods(key)\<close>. Both are collaborators outside
  the plugin and stay parameters.
\<close>

record VolumeRestrictions =
  pvcLister :: "string \<Rightarrow> string \<Rightarrow> error + PersistentVolumeClaim"
  sharedLister :: "string \<Rightarrow> bool"

text \<open>
  Modelled from the spec: \<^verbatim>\<open>v1helper.ContainsAccessMode\<close> is not part of the plugin's
  file; "its access-mode list contains the exclusive mode" is list membership.
\<close>

definition ContainsAccessMode :: "string list \<Rightarrow> string \<Rightarrow> bool" where
  "ContainsAccessMode modes mode = (mode \<in> set modes)"

text \<open>
  Modelled from the spec: \<^verbatim>\<open>framework.GetNamespacedName\<close> is not part of the plugin's
  file; the index is probed with "a namespace-qualified claim name", namespace and name
  joined by a slash.
\<close>

definition GetNamespacedName :: "string \<Rightarrow> string \<Rightarrow> string" where
  "GetNamespacedName namespace name = namespace @ ''/'' @ name"

text \<open>
  \<^verbatim>\<open>*framework.Status\<close>: a nil status is success and is \<open>None\<close>. The two constructors
  are the two framework functions the plugin builds a status with.
\<close>

datatype Code = Success | Error | Unschedulable | UnschedulableAndUnresolvable | Wait | Skip | Pending

datatype Status = NewStatus Code "string list" | AsStatus error

datatype QueueingHint = QueueSkip | Queue

text \<open>
  Modelled from the spec: the constant \<^verbatim>\<open>names.VolumeRestrictions\<close> is not part of the
  plugin's file; the state is kept under "a plugin-unique string", the plugin's name
  after the prefix \<^verbatim>\<open>PreFilter\<close>.
\<close>

definition Name :: string where
  "Name = ''VolumeRestrictions''"

definition preFilterStateKey :: string where
  "preFilterStateKey = ''PreFilter'' @ Name"

definition ErrReasonDiskConflict :: string where
  "ErrReasonDiskConflict = ''node(s) had no available disk''"

definition ErrReasonReadWriteOncePodConflict :: string where
  "ErrReasonReadWriteOncePodConflict =
     ''node has pod using PersistentVolumeClaim with the same name and ReadWriteOncePod access mode''"

section \<open>The cycle state cache\<close>

text \<open>
  \<^verbatim>\<open>preFilterState\<close> is handled through pointers and its counter is mutated in place,
  so the model has an explicit store: \<open>objs\<close> gives the struct at an address and
  \<open>next_ref\<close> is the next address that an allocation returns. A Go pointer never
  dangles, hence \<open>objs\<close> is total; a pointer that may be nil is a \<open>ref option\<close>.
  The set of claim names is never written after it has been stored in a struct, so it is
  kept by value. Go's \<^verbatim>\<open>int\<close> is the 64-bit two's complement integer of the targets
  Kubernetes is built for.
\<close>

record preFilterState =
  readWriteOncePodPVCs :: "string fset"
  conflictingPVCRefCount :: "64 word"

type_synonym ref = nat

record heap =
  objs :: "ref \<Rightarrow> preFilterState"
  next_ref :: ref

text \<open>
  \<^verbatim>\<open>framework.StateData\<close> is an interface: it holds a \<^verbatim>\<open>*preFilterState\<close> (possibly a
  nil pointer), nothing at all (the nil interface), or the data of some other plugin,
  which the model keeps as the text that \<^verbatim>\<open>%+v\<close> prints for it.
\<close>

datatype StateData = NilStateData | PreFilterStatePtr "ref option" | OtherStateData string

type_synonym CycleState = "string \<rightharpoonup> StateData"

fun conflictingPVCRefCountForPod_loop :: "preFilterState \<Rightarrow> Volume list \<Rightarrow> 64 word \<Rightarrow> 64 word" where
  "conflictingPVCRefCountForPod_loop s [] conflicts = conflicts"
| "conflictingPVCRefCountForPod_loop s (volume # rest) conflicts =
     (case PersistentVolumeClaim volume of
        None \<Rightarrow> conflictingPVCRefCountForPod_loop s rest conflicts
      | Some claim \<Rightarrow>
          if ClaimName claim |\<in>| readWriteOncePodPVCs s
          then conflictingPVCRefCountForPod_loop s rest (conflicts + 1)
          else conflictingPVCRefCountForPod_loop s rest conflicts)"

definition conflictingPVCRefCountForPod :: "preFilterState \<Rightarrow> PodInfo \<Rightarrow> 64 word" where
  "conflictingPVCRefCountForPod s podInfo =
     conflictingPVCRefCountForPod_loop s (Volumes (Spec (Pod podInfo))) 0"

definition updateWithPod :: "heap \<Rightarrow> ref \<Rightarrow> PodInfo \<Rightarrow> 64 word \<Rightarrow> heap" where
  "updateWithPod h s podInfo multiplier =
     h\<lparr>objs := (objs h)(s := (objs h s)\<lparr>conflictingPVCRefCount :=
          conflictingPVCRefCount (objs h s)
            + multiplier * conflictingPVCRefCountForPod (objs h s) podInfo\<rparr>)\<rparr>"


text \<open>
  Modelled from the spec: \<^verbatim>\<open>CycleState.Read\<close> is not part of the plugin's file. It is
  the "typed retrieval" from the keyed store: a key that the store lacks is an error, and
  the value found is asserted to \<^verbatim>\<open>StateData\<close>, which panics when a nil interface was
  stored under the key.
\<close>

definition Read :: "CycleState \<Rightarrow> string \<Rightarrow> panic + (error + StateData)" where
  "Read cycleState key =
     (case cycleState key of
        None \<Rightarrow> Inr (Inl CycleState_ErrNotFound)
      | Some NilStateData \<Rightarrow> Inl InterfaceConversion
      | Some c \<Rightarrow> Inr (Inr c))"

text \<open>
  \<^verbatim>\<open>getPreFilterState\<close> passes a panic of \<^verbatim>\<open>Read\<close> on, replaces an error of \<^verbatim>\<open>Read\<close>
  by its own, and asserts the value read to \<^verbatim>\<open>*preFilterState\<close>; that assertion is of
  the two-result form and fails without a panic.
\<close>

definition getPreFilterState :: "CycleState \<Rightarrow> panic + (error + ref option)" where
  "getPreFilterState cycleState =
     (case Read cycleState preFilterStateKey of
        Inl p \<Rightarrow> Inl p
      | Inr (Inl err) \<Rightarrow>
          Inr (Inl (ErrCannotRead (''cannot read '' @ [CHR 0x22] @ preFilterStateKey @ [CHR 0x22]
                                     @ '' from cycleState'')))
      | Inr (Inr c) \<Rightarrow>
          (case c of
             PreFilterStatePtr s \<Rightarrow> Inr (Inr s)
           | NilStateData \<Rightarrow>
               Inr (Inl (ErrConvert (''<nil>'' @ '' convert to volumerestrictions.state error'')))
           | OtherStateData printed \<Rightarrow>
               Inr (Inl (ErrConvert (printed @ '' convert to volumerestrictions.state error'')))))"

text \<open>
  \<^verbatim>\<open>calPreFilterState\<close> ranges over the set of claim names and adds one for every name
  that the cluster-wide index reports in use. The order in which a Go map is ranged over
  is unspecified and the increments commute, so the loop computes the number of names in
  the set that are in use. The struct is allocated at the next free address; the error
  result of the Go function is always nil.
\<close>

definition calPreFilterState ::
    "VolumeRestrictions \<Rightarrow> heap \<Rightarrow> Pod \<Rightarrow> string fset \<Rightarrow> heap \<times> (error + ref)" where
  "calPreFilterState pl h pod pvcs =
     (let conflictingPVCRefCount' =
            (of_nat (fcard (ffilter
               (\<lambda>pvc. sharedLister pl (GetNamespacedName (Pod_Namespace pod) pvc)) pvcs)) :: 64 word)
      in (h\<lparr>objs := (objs h)(next_ref h :=
                \<lparr>readWriteOncePodPVCs = pvcs,
                 conflictingPVCRefCount = conflictingPVCRefCount'\<rparr>),
             next_ref := Suc (next_ref h)\<rparr>,
          Inr (next_ref h)))"

fun readWriteOncePodPVCsForPod_loop ::
    "VolumeRestrictions \<Rightarrow> string \<Rightarrow> bool \<Rightarrow> Volume list \<Rightarrow> string fset \<Rightarrow> error + string fset" where
  "readWriteOncePodPVCsForPod_loop pl ns ignoreNotFoundError [] pvcs = Inr pvcs"
| "readWriteOncePodPVCsForPod_loop pl ns ignoreNotFoundError (volume # rest) pvcs =
     (case PersistentVolumeClaim volume of
        None \<Rightarrow> readWriteOncePodPVCsForPod_loop pl ns ignoreNotFoundError rest pvcs
      | Some claim \<Rightarrow>
          (case pvcLister pl ns (ClaimName claim) of
             Inl err \<Rightarrow>
               if ignoreNotFoundError \<and> IsNotFound err
               then readWriteOncePodPVCsForPod_loop pl ns ignoreNotFoundError rest pvcs
               else Inl err
           | Inr pvc \<Rightarrow>
               if \<not> ContainsAccessMode (AccessModes (PVC_Spec pvc)) ReadWriteOncePod
               then readWriteOncePodPVCsForPod_loop pl ns ignoreNotFoundError rest pvcs
               else readWriteOncePodPVCsForPod_loop pl ns ignoreNotFoundError rest
                      (finsert (PVC_Name pvc) pvcs)))"

definition readWriteOncePodPVCsForPod ::
    "VolumeRestrictions \<Rightarrow> Pod \<Rightarrow> bool \<Rightarrow> error + string fset" where
  "readWriteOncePodPVCsForPod pl pod ignoreNotFoundError =
     readWriteOncePodPVCsForPod_loop pl (Pod_Namespace pod) ignoreNotFoundError
       (Volumes (Spec pod)) {||}"

section \<open>PreFilter, AddPod, RemovePod and Filter\<close>

fun needsCheck_loop :: "Volume list \<Rightarrow> bool" where
  "needsCheck_loop [] = False"
| "needsCheck_loop (v # rest) = (if needsRestrictionsCheck v then True else needsCheck_loop rest)"

text \<open>
  \<^verbatim>\<open>PreFilter\<close> returns a nil \<^verbatim>\<open>*PreFilterResult\<close> on every path; the model returns the
  store, the cycle state and the status.
\<close>

definition PreFilter ::
    "VolumeRestrictions \<Rightarrow> heap \<Rightarrow> CycleState \<Rightarrow> Pod \<Rightarrow> heap \<times> CycleState \<times> Status option" where
  "PreFilter pl h cycleState pod =
     (let needsCheck = needsCheck_loop (Volumes (Spec pod))
      in case readWriteOncePodPVCsForPod pl pod False of
           Inl err \<Rightarrow>
             if IsNotFound err
             then (h, cycleState, Some (NewStatus UnschedulableAndUnresolvable [Error_text err]))
             else (h, cycleState, Some (AsStatus err))
         | Inr pvcs \<Rightarrow>
             (case calPreFilterState pl h pod pvcs of
                (h', Inl err) \<Rightarrow> (h', cycleState, Some (AsStatus err))
              | (h', Inr s) \<Rightarrow>
                  if \<not> needsCheck \<and> conflictingPVCRefCount (objs h' s) = 0
                  then (h', cycleState, Some (NewStatus Skip []))
                  else (h', cycleState(preFilterStateKey \<mapsto> PreFilterStatePtr (Some s)), None)))"

definition AddPod :: "heap \<Rightarrow> CycleState \<Rightarrow> PodInfo \<Rightarrow> panic + heap \<times> Status option" where
  "AddPod h cycleState podInfoToAdd =
     (case getPreFilterState cycleState of
        Inl p \<Rightarrow> Inl p
      | Inr (Inl err) \<Rightarrow> Inr (h, Some (AsStatus err))
      | Inr (Inr None) \<Rightarrow> Inl NilPointerDereference
      | Inr (Inr (Some state)) \<Rightarrow> Inr (updateWithPod h state podInfoToAdd 1, None))"

definition RemovePod :: "heap \<Rightarrow> CycleState \<Rightarrow> PodInfo \<Rightarrow> panic + heap \<times> Status option" where
  "RemovePod h cycleState podInfoToRemove =
     (case getPreFilterState cycleState of
        Inl p \<Rightarrow> Inl p
      | Inr (Inl err) \<Rightarrow> Inr (h, Some (AsStatus err))
      | Inr (Inr None) \<Rightarrow> Inl NilPointerDereference
      | Inr (Inr (Some state)) \<Rightarrow> Inr (updateWithPod h state podInfoToRemove (- 1), None))"

fun satisfyVolumeConflicts_pods :: "Volume \<Rightarrow> PodInfo list \<Rightarrow> bool" where
  "satisfyVolumeConflicts_pods v [] = True"
| "satisfyVolumeConflicts_pods v (ev # rest) =
     (if isVolumeConflict v (Pod ev) then False else satisfyVolumeConflicts_pods v rest)"

fun satisfyVolumeConflicts_loop :: "Volume list \<Rightarrow> NodeInfo \<Rightarrow> bool" where
  "satisfyVolumeConflicts_loop [] nodeInfo = True"
| "satisfyVolumeConflicts_loop (v # rest) nodeInfo =
     (if \<not> needsRestrictionsCheck v then satisfyVolumeConflicts_loop rest nodeInfo
      else if \<not> satisfyVolumeConflicts_pods v (Pods nodeInfo) then False
      else satisfyVolumeConflicts_loop rest nodeInfo)"

definition satisfyVolumeConflicts :: "Pod \<Rightarrow> NodeInfo \<Rightarrow> bool" where
  "satisfyVolumeConflicts pod nodeInfo = satisfyVolumeConflicts_loop (Volumes (Spec pod)) nodeInfo"

definition satisfyReadWriteOncePod :: "heap \<Rightarrow> ref option \<Rightarrow> Status option" where
  "satisfyReadWriteOncePod h state =
     (case state of
        None \<Rightarrow> None
      | Some s \<Rightarrow>
          if 0 <s conflictingPVCRefCount (objs h s)
          then Some (NewStatus Unschedulable [ErrReasonReadWriteOncePodConflict])
          else None)"

definition Filter :: "heap \<Rightarrow> CycleState \<Rightarrow> Pod \<Rightarrow> NodeInfo \<Rightarrow> panic + Status option" where
  "Filter h cycleState pod nodeInfo =
     (if \<not> satisfyVolumeConflicts pod nodeInfo
      then Inr (Some (NewStatus Unschedulable [ErrReasonDiskConflict]))
      else case getPreFilterState cycleState of
             Inl p \<Rightarrow> Inl p
           | Inr (Inl err) \<Rightarrow> Inr (Some (AsStatus err))
           | Inr (Inr state) \<Rightarrow> Inr (satisfyReadWriteOncePod h state))"

section \<open>Re-queue predicates\<close>

text \<open>
  The payload of a cluster event is a pair of \<^verbatim>\<open>interface{}\<close> values; \<open>None\<close> is the
  nil interface.
\<close>

datatype Object = PodObject Pod | PersistentVolumeClaimObject PersistentVolumeClaim | OtherObject

text \<open>
  Modelled from the spec: \<^verbatim>\<open>util.As\<close> is not part of the plugin's file. It converts the
  old and the new object of an event to the expected type, a nil object to a nil pointer,
  and "any unexpected event-payload shape" is an error.
\<close>

definition As_Pod :: "Object option \<Rightarrow> Object option \<Rightarrow> error + (Pod option \<times> Pod option)" where
  "As_Pod oldObj newObj =
     (case newObj of
        Some (PersistentVolumeClaimObject _) \<Rightarrow> Inl (ErrUnexpectedObjects ''expected *v1.Pod'')
      | Some OtherObject \<Rightarrow> Inl (ErrUnexpectedObjects ''expected *v1.Pod'')
      | _ \<Rightarrow>
        (case oldObj of
           Some (PersistentVolumeClaimObject _) \<Rightarrow> Inl (ErrUnexpectedObjects ''expected *v1.Pod'')
         | Some OtherObject \<Rightarrow> Inl (ErrUnexpectedObjects ''expected *v1.Pod'')
         | _ \<Rightarrow>
           Inr (case oldObj of Some (PodObject p) \<Rightarrow> Some p | _ \<Rightarrow> None,
                case newObj of Some (PodObject p) \<Rightarrow> Some p | _ \<Rightarrow> None)))"

text \<open>
  Modelled from the spec: \<^verbatim>\<open>util.As\<close> at the type of claims, as above.
\<close>

definition As_PersistentVolumeClaim ::
    "Object option \<Rightarrow> Object option
       \<Rightarrow> error + (PersistentVolumeClaim option \<times> PersistentVolumeClaim option)" where
  "As_PersistentVolumeClaim oldObj newObj =
     (case newObj of
        Some (PodObject _) \<Rightarrow> Inl (ErrUnexpectedObjects ''expected *v1.PersistentVolumeClaim'')
      | Some OtherObject \<Rightarrow> Inl (ErrUnexpectedObjects ''expected *v1.PersistentVolumeClaim'')
      | _ \<Rightarrow>
        (case oldObj of
           Some (PodObject _) \<Rightarrow> Inl (ErrUnexpectedObjects ''expected *v1.PersistentVolumeClaim'')
         | Some OtherObject \<Rightarrow> Inl (ErrUnexpectedObjects ''expected *v1.PersistentVolumeClaim'')
         | _ \<Rightarrow>
           Inr (case oldObj of Some (PersistentVolumeClaimObject c) \<Rightarrow> Some c | _ \<Rightarrow> None,
                case newObj of Some (PersistentVolumeClaimObject c) \<Rightarrow> Some c | _ \<Rightarrow> None)))"

text \<open>
  Modelled from the spec: \<^verbatim>\<open>framework.NewNodeInfo\<close> is not part of the plugin's file; it
  builds the "synthetic single-pod node" whose resident pods are the pods given.
\<close>

definition NewNodeInfo :: "Pod list \<Rightarrow> NodeInfo" where
  "NewNodeInfo pods = \<lparr>Pods = map (\<lambda>p. \<lparr>Pod = p\<rparr>) pods\<rparr>"

definition isSchedulableAfterPodDeleted ::
    "VolumeRestrictions \<Rightarrow> Pod \<Rightarrow> Object option \<Rightarrow> Object option
       \<Rightarrow> panic + (QueueingHint \<times> error option)" where
  "isSchedulableAfterPodDeleted pl pod oldObj newObj =
     (case As_Pod oldObj newObj of
        Inl err \<Rightarrow>
          Inr (Queue, Some (ErrUnexpectedObjects
                 (''unexpected objects in isSchedulableAfterPodDeleted: '' @ Error_text err)))
      | Inr (None, _) \<Rightarrow> Inl NilPointerDereference
      | Inr (Some deletedPod, _) \<Rightarrow>
          if Pod_Namespace deletedPod \<noteq> Pod_Namespace pod then Inr (QueueSkip, None)
          else
            (case readWriteOncePodPVCsForPod pl pod False of
               Inl err \<Rightarrow> if IsNotFound err then Inr (QueueSkip, None) else Inr (Queue, Some err)
             | Inr newPodPvcs \<Rightarrow>
                 (case readWriteOncePodPVCsForPod pl deletedPod True of
                    Inl err \<Rightarrow> Inr (Queue, Some err)
                  | Inr deletedPodPvcs \<Rightarrow>
                      if fBex deletedPodPvcs (\<lambda>pvc. pvc |\<in>| newPodPvcs) then Inr (Queue, None)
                      else
                        (let nodeInfo = NewNodeInfo [deletedPod]
                         in if \<not> satisfyVolumeConflicts pod nodeInfo then Inr (Queue, None)
                            else Inr (QueueSkip, None)))))"

text \<open>
  The loop of \<^verbatim>\<open>isSchedulableAfterPersistentVolumeClaimChange\<close> either returns from the
  function (\<open>Inl\<close>, with the hint and the error returned) or runs to its end with the set
  of names collected (\<open>Inr\<close>).
\<close>

fun claimChange_loop ::
    "VolumeRestrictions \<Rightarrow> string \<Rightarrow> Volume list \<Rightarrow> string fset
       \<Rightarrow> (QueueingHint \<times> error option) + string fset" where
  "claimChange_loop pl ns [] pvcs = Inr pvcs"
| "claimChange_loop pl ns (volume # rest) pvcs =
     (case PersistentVolumeClaim volume of
        None \<Rightarrow> claimChange_loop pl ns rest pvcs
      | Some claim \<Rightarrow>
          (case pvcLister pl ns (ClaimName claim) of
             Inl err \<Rightarrow> if IsNotFound err then Inl (QueueSkip, None) else Inl (Queue, Some err)
           | Inr pvc \<Rightarrow> claimChange_loop pl ns rest (finsert (PVC_Name pvc) pvcs)))"

definition isSchedulableAfterPersistentVolumeClaimChange ::
    "VolumeRestrictions \<Rightarrow> Pod \<Rightarrow> Object option \<Rightarrow> Object option
       \<Rightarrow> panic + (QueueingHint \<times> error option)" where
  "isSchedulableAfterPersistentVolumeClaimChange pl pod oldObj newObj =
     (case As_PersistentVolumeClaim oldObj newObj of
        Inl err \<Rightarrow>
          Inr (Queue, Some (ErrUnexpectedObjects
                 (''unexpected objects in isSchedulableAfterPersistentVolumeClaimChange: ''
                    @ Error_text err)))
      | Inr (oldPersistentVolumeClaim, newPersistentVolumeClaim) \<Rightarrow>
          if oldPersistentVolumeClaim \<noteq> None then Inr (QueueSkip, None)
          else
            (case newPersistentVolumeClaim of
               None \<Rightarrow> Inl NilPointerDereference
             | Some newClaim \<Rightarrow>
                 if PVC_Namespace newClaim \<noteq> Pod_Namespace pod then Inr (QueueSkip, None)
                 else
                   (case claimChange_loop pl (Pod_Namespace pod) (Volumes (Spec pod)) {||} of
                      Inl early \<Rightarrow> Inr early
                    | Inr pvcs \<Rightarrow>
                        if oldPersistentVolumeClaim = None \<and> PVC_Name newClaim |\<in>| pvcs
                        then Inr (Queue, None)
                        else Inr (QueueSkip, None))))"

section \<open>Sequences of speculative additions and removals\<close>

text \<open>
  During preemption simulation the scheduler calls \<^verbatim>\<open>AddPod\<close> and \<^verbatim>\<open>RemovePod\<close> one after
  the other on the same cycle state. \<open>runOp\<close> is one such call and \<open>runOps\<close> a sequence
  of them, each on the store that the call before it left; a panic ends the sequence.
\<close>

datatype podOp = AddOp PodInfo | RemoveOp PodInfo

fun runOp :: "CycleState \<Rightarrow> podOp \<Rightarrow> heap \<Rightarrow> panic + heap \<times> Status option" where
  "runOp cycleState (AddOp p) h = AddPod h cycleState p"
| "runOp cycleState (RemoveOp p) h = RemovePod h cycleState p"

fun runOps :: "CycleState \<Rightarrow> podOp list \<Rightarrow> heap \<Rightarrow> panic + heap" where
  "runOps cycleState [] h = Inr h"
| "runOps cycleState (op # ops) h =
     (case runOp cycleState op h of
        Inl p \<Rightarrow> Inl p
      | Inr (h', status) \<Rightarrow> runOps cycleState ops h')"

text \<open>
  The specification's measure of one call, written from its words and not from the code's
  loop: "how many of the other pod's claim-backed volumes name a claim present in"
  the entry's set of exclusive claims, counted positive for an addition and negative for
  a removal.
\<close>

definition spec_matchCount :: "string fset \<Rightarrow> PodInfo \<Rightarrow> nat" where
  "spec_matchCount exclusiveClaims podInfo =
     length (filter
       (\<lambda>volume. case PersistentVolumeClaim volume of
                    None \<Rightarrow> False
                  | Some claim \<Rightarrow> ClaimName claim |\<in>| exclusiveClaims)
       (Volumes (Spec (Pod podInfo))))"

fun spec_signedMatchCount :: "string fset \<Rightarrow> podOp \<Rightarrow> int" where
  "spec_signedMatchCount exclusiveClaims (AddOp p) = int (spec_matchCount exclusiveClaims p)"
| "spec_signedMatchCount exclusiveClaims (RemoveOp p) = - int (spec_matchCount exclusiveClaims p)"

section \<open>The claims a pod refers to\<close>

text \<open>
  The names of the claims behind a pod's claim-backed volumes, in the order of the
  volumes: the lookups that the loops over \<^verbatim>\<open>pod.Spec.Volumes\<close> make, in the order in
  which they make them.
\<close>

definition claimNamesOf :: "Volume list \<Rightarrow> string list" where
  "claimNamesOf vs =
     List.map_filter (\<lambda>volume. map_option ClaimName (PersistentVolumeClaim volume)) vs"

definition referencedClaimNames :: "Pod \<Rightarrow> string list" where
  "referencedClaimNames pod = claimNamesOf (Volumes (Spec pod))"

section \<open>Concrete inputs\<close>

definition emptyHeap :: heap where
  "emptyHeap = \<lparr>objs = (\<lambda>_. \<lparr>readWriteOncePodPVCs = {||}, conflictingPVCRefCount = 0\<rparr>),
                next_ref = 0\<rparr>"

definition heapWith :: "preFilterState \<Rightarrow> heap" where
  "heapWith st = \<lparr>objs = (\<lambda>_. st), next_ref = 1\<rparr>"

definition noVolume :: Volume where
  "noVolume = \<lparr>GCEPersistentDisk = None, AWSElasticBlockStore = None, ISCSI = None,
                RBD = None, PersistentVolumeClaim = None\<rparr>"

definition claimVolume :: "string \<Rightarrow> Volume" where
  "claimVolume name = noVolume\<lparr>PersistentVolumeClaim := Some \<lparr>ClaimName = name\<rparr>\<rparr>"

definition gceVolume :: "string \<Rightarrow> bool \<Rightarrow> Volume" where
  "gceVolume name ro = noVolume\<lparr>GCEPersistentDisk := Some \<lparr>PDName = name, GCE_ReadOnly = ro\<rparr>\<rparr>"

definition rbdVolume :: "string list \<Rightarrow> string \<Rightarrow> string \<Rightarrow> bool \<Rightarrow> Volume" where
  "rbdVolume mons pool img ro =
     noVolume\<lparr>RBD := Some \<lparr>CephMonitors = mons, RBDPool = pool, RBDImage = img,
                            RBD_ReadOnly = ro\<rparr>\<rparr>"

definition claimNamed :: "string \<Rightarrow> string \<Rightarrow> PersistentVolumeClaim" where
  "claimNamed ns name = \<lparr>PVC_Namespace = ns, PVC_Name = name, PVC_Spec = \<lparr>AccessModes = []\<rparr>\<rparr>"

definition podWith :: "string \<Rightarrow> Volume list \<Rightarrow> Pod" where
  "podWith ns vs = \<lparr>Pod_Namespace = ns, Spec = \<lparr>Volumes = vs\<rparr>\<rparr>"

text \<open>
  A claim store given by a table: a claim that the table lacks is not found, and a table
  entry is either the lookup error to return or the access modes of the claim.
\<close>

definition claimStore ::
    "((string \<times> string) \<times> (error + string list)) list
       \<Rightarrow> string \<Rightarrow> string \<Rightarrow> error + PersistentVolumeClaim" where
  "claimStore table ns name =
     (case map_of table (ns, name) of
        None \<Rightarrow> Inl (ErrClaimNotFound (name @ '' not found''))
      | Some (Inl err) \<Rightarrow> Inl err
      | Some (Inr modes) \<Rightarrow>
          Inr \<lparr>PVC_Namespace = ns, PVC_Name = name, PVC_Spec = \<lparr>AccessModes = modes\<rparr>\<rparr>)"

text \<open>
  A claim store that hands out the claim objects of a table as they are, whatever name
  they carry.
\<close>

definition objectStore ::
    "((string \<times> string) \<times> PersistentVolumeClaim) list
       \<Rightarrow> string \<Rightarrow> string \<Rightarrow> error + PersistentVolumeClaim" where
  "objectStore table ns name =
     (case map_of table (ns, name) of
        None \<Rightarrow> Inl (ErrClaimNotFound (name @ '' not found''))
      | Some pvc \<Rightarrow> Inr pvc)"

definition pluginWith ::
    "((string \<times> string) \<times> (error + string list)) list \<Rightarrow> string list \<Rightarrow> VolumeRestrictions" where
  "pluginWith table used = \<lparr>pvcLister = claimStore table, sharedLister = (\<lambda>key. key \<in> set used)\<rparr>"

section \<open>Evaluating finite sets\<close>

lemma ffilter_finsert_if:
  "ffilter P (finsert x A) = (if P x then finsert x (ffilter P A) else ffilter P A)"
  by auto

lemma ffilter_fempty_eq: "ffilter P {||} = {||}"
  by auto

lemmas fset_eval = ffilter_finsert_if ffilter_fempty_eq fcard_fempty fcard_finsert_if

section \<open>The conflict matcher decides by the per-kind rules\<close>

lemma haveOverlap_probe_iff: "haveOverlap_probe m xs \<longleftrightarrow> (\<exists>x\<in>set xs. x |\<in>| m)"
  by (induction xs) auto

lemma haveOverlap_iff: "haveOverlap a1 a2 \<longleftrightarrow> set a1 \<inter> set a2 \<noteq> {}"
  by (auto simp: haveOverlap_def haveOverlap_probe_iff fset_of_list.rep_eq)

lemma haveOverlap_sym: "haveOverlap a1 a2 = haveOverlap a2 a1"
  by (auto simp: haveOverlap_iff)

lemma gceConflict_iff:
  "gceConflict v ev \<longleftrightarrow>
     (\<exists>d e. GCEPersistentDisk v = Some d \<and> GCEPersistentDisk ev = Some e
        \<and> PDName d = PDName e \<and> \<not> (GCE_ReadOnly d \<and> GCE_ReadOnly e))"
  by (auto simp: gceConflict_def split: option.splits)

lemma awsConflict_iff:
  "awsConflict v ev \<longleftrightarrow>
     (\<exists>d e. AWSElasticBlockStore v = Some d \<and> AWSElasticBlockStore ev = Some e
        \<and> VolumeID d = VolumeID e)"
  by (auto simp: awsConflict_def split: option.splits)

lemma iscsiConflict_iff:
  "iscsiConflict v ev \<longleftrightarrow>
     (\<exists>d e. ISCSI v = Some d \<and> ISCSI ev = Some e
        \<and> IQN d = IQN e \<and> \<not> (ISCSI_ReadOnly d \<and> ISCSI_ReadOnly e))"
  by (auto simp: iscsiConflict_def split: option.splits)

lemma rbdConflict_iff:
  "rbdConflict v ev \<longleftrightarrow>
     (\<exists>d e. RBD v = Some d \<and> RBD ev = Some e
        \<and> set (CephMonitors d) \<inter> set (CephMonitors e) \<noteq> {}
        \<and> RBDPool d = RBDPool e \<and> RBDImage d = RBDImage e
        \<and> \<not> (RBD_ReadOnly d \<and> RBD_ReadOnly e))"
  by (auto simp: rbdConflict_def haveOverlap_iff split: option.splits)

lemma isVolumeConflict_loop_iff:
  "isVolumeConflict_loop v evs \<longleftrightarrow>
     (\<exists>ev\<in>set evs. gceConflict v ev \<or> awsConflict v ev \<or> iscsiConflict v ev \<or> rbdConflict v ev)"
  by (induction evs) auto

text \<open>
  Claim C2. A volume conflicts with a pod exactly when it conflicts with one of the pod's
  volumes by the rule of a backend kind that both volumes carry: GCE PD on equal disk
  names unless both sides are read-only; AWS EBS on equal volume ids, read-only or not;
  ISCSI on equal IQNs unless both sides are read-only; RBD when the monitor lists have an
  element in common, pool and image are equal, unless both sides are read-only. Every
  rule needs the same kind on both sides, so volumes of different kinds, and volumes of
  any other kind, never conflict.
\<close>

theorem conflict_matcher_rules:
  "isVolumeConflict volume pod \<longleftrightarrow>
     (\<exists>existing\<in>set (Volumes (Spec pod)).
        (\<exists>d e. GCEPersistentDisk volume = Some d \<and> GCEPersistentDisk existing = Some e
           \<and> PDName d = PDName e \<and> \<not> (GCE_ReadOnly d \<and> GCE_ReadOnly e))
      \<or> (\<exists>d e. AWSElasticBlockStore volume = Some d \<and> AWSElasticBlockStore existing = Some e
           \<and> VolumeID d = VolumeID e)
      \<or> (\<exists>d e. ISCSI volume = Some d \<and> ISCSI existing = Some e
           \<and> IQN d = IQN e \<and> \<not> (ISCSI_ReadOnly d \<and> ISCSI_ReadOnly e))
      \<or> (\<exists>d e. RBD volume = Some d \<and> RBD existing = Some e
           \<and> set (CephMonitors d) \<inter> set (CephMonitors e) \<noteq> {}
           \<and> RBDPool d = RBDPool e \<and> RBDImage d = RBDImage e
           \<and> \<not> (RBD_ReadOnly d \<and> RBD_ReadOnly e)))"
  unfolding isVolumeConflict_def isVolumeConflict_loop_iff
    gceConflict_iff awsConflict_iff iscsiConflict_iff rbdConflict_iff ..

theorem conflict_matcher_rules_witness:
  "isVolumeConflict (rbdVolume [''m1'', ''m2''] ''p'' ''img'' False)
     (podWith ''ns'' [gceVolume ''d'' False, rbdVolume [''m2''] ''p'' ''img'' False])
   \<and> \<not> isVolumeConflict (rbdVolume [''m1'', ''m2''] ''p'' ''img'' True)
     (podWith ''ns'' [gceVolume ''d'' False, rbdVolume [''m2''] ''p'' ''img'' True])
   \<and> \<not> isVolumeConflict (gceVolume ''p'' False)
     (podWith ''ns'' [claimVolume ''p'', rbdVolume [''m2''] ''p'' ''p'' False])"
  unfolding conflict_matcher_rules
  by (simp add: rbdVolume_def gceVolume_def claimVolume_def noVolume_def podWith_def)

section \<open>Speculative additions and removals move the counter\<close>

lemma loop_count:
  "conflictingPVCRefCountForPod_loop s vs c =
     c + of_nat (length (filter (\<lambda>v. \<exists>claim. PersistentVolumeClaim v = Some claim
                  \<and> ClaimName claim |\<in>| readWriteOncePodPVCs s) vs))"
  by (induction vs arbitrary: c) (auto split: option.splits)

lemma count_cong:
  "readWriteOncePodPVCs s = readWriteOncePodPVCs s' \<Longrightarrow>
   conflictingPVCRefCountForPod s p = conflictingPVCRefCountForPod s' p"
  by (simp add: conflictingPVCRefCountForPod_def loop_count)

lemma updateWithPod_set [simp]:
  "readWriteOncePodPVCs (objs (updateWithPod h s p m) r) = readWriteOncePodPVCs (objs h r)"
  by (simp add: updateWithPod_def)

lemma updateWithPod_count_same:
  "conflictingPVCRefCount (objs (updateWithPod h s p m) s)
     = conflictingPVCRefCount (objs h s) + m * conflictingPVCRefCountForPod (objs h s) p"
  by (simp add: updateWithPod_def)

lemma updateWithPod_other:
  "r \<noteq> s \<Longrightarrow> objs (updateWithPod h s p m) r = objs h r"
  by (simp add: updateWithPod_def)

lemma updateWithPod_next [simp]: "next_ref (updateWithPod h s p m) = next_ref h"
  by (simp add: updateWithPod_def)

lemma update_add_remove:
  "conflictingPVCRefCount (objs (updateWithPod (updateWithPod h s X 1) s X (- 1)) s)
     = conflictingPVCRefCount (objs h s)"
proof -
  have "conflictingPVCRefCountForPod (objs (updateWithPod h s X 1) s) X
          = conflictingPVCRefCountForPod (objs h s) X"
    by (rule count_cong) simp
  then show ?thesis
    by (simp add: updateWithPod_count_same)
qed

text \<open>
  Claim C4. \<^verbatim>\<open>updateWithPod\<close> with \<open>+1\<close> and then with \<open>-1\<close> for the same pod leaves the
  counter of the entry at the value it had before, whatever the entry and the pod; the
  same holds for \<^verbatim>\<open>AddPod\<close> followed by \<^verbatim>\<open>RemovePod\<close> on a cycle state that holds the
  entry.
\<close>

theorem add_then_remove_restores:
  "conflictingPVCRefCount (objs (updateWithPod (updateWithPod h s X 1) s X (- 1)) s)
     = conflictingPVCRefCount (objs h s)
   \<and> (cycleState preFilterStateKey = Some (PreFilterStatePtr (Some s)) \<longrightarrow>
        (\<exists>h1 h2. AddPod h cycleState X = Inr (h1, None)
           \<and> RemovePod h1 cycleState X = Inr (h2, None)
           \<and> conflictingPVCRefCount (objs h2 s) = conflictingPVCRefCount (objs h s)))"
  by (simp add: update_add_remove AddPod_def RemovePod_def getPreFilterState_def Read_def)

theorem add_then_remove_restores_witness:
  "conflictingPVCRefCount (objs (updateWithPod (updateWithPod
       (heapWith \<lparr>readWriteOncePodPVCs = {|''c1''|}, conflictingPVCRefCount = 5\<rparr>) 0
       \<lparr>Pod = podWith ''ns'' [claimVolume ''c1'']\<rparr> 1) 0
       \<lparr>Pod = podWith ''ns'' [claimVolume ''c1'']\<rparr> (- 1)) 0) = 5
   \<and> (\<exists>h1 h2.
         AddPod (heapWith \<lparr>readWriteOncePodPVCs = {|''c1''|}, conflictingPVCRefCount = 5\<rparr>)
           [preFilterStateKey \<mapsto> PreFilterStatePtr (Some 0)]
           \<lparr>Pod = podWith ''ns'' [claimVolume ''c1'']\<rparr> = Inr (h1, None)
       \<and> conflictingPVCRefCount (objs h1 0) = 6
       \<and> RemovePod h1 [preFilterStateKey \<mapsto> PreFilterStatePtr (Some 0)]
           \<lparr>Pod = podWith ''ns'' [claimVolume ''c1'']\<rparr> = Inr (h2, None)
       \<and> conflictingPVCRefCount (objs h2 0) = 5)"
  using add_then_remove_restores
    [of "heapWith \<lparr>readWriteOncePodPVCs = {|''c1''|}, conflictingPVCRefCount = 5\<rparr>" 0
        "\<lparr>Pod = podWith ''ns'' [claimVolume ''c1'']\<rparr>"
        "[preFilterStateKey \<mapsto> PreFilterStatePtr (Some 0)]"]
  by (simp add: heapWith_def AddPod_def RemovePod_def getPreFilterState_def Read_def
      updateWithPod_def conflictingPVCRefCountForPod_def podWith_def claimVolume_def noVolume_def)

section \<open>The counter under sequences of operations\<close>

lemma loop_spec:
  "conflictingPVCRefCountForPod_loop st vs c =
     c + of_nat (length (filter
           (\<lambda>volume. case PersistentVolumeClaim volume of
                        None \<Rightarrow> False
                      | Some claim \<Rightarrow> ClaimName claim |\<in>| readWriteOncePodPVCs st) vs))"
  by (induction vs arbitrary: c) (auto split: option.splits)

lemma count_spec:
  "conflictingPVCRefCountForPod st p = of_nat (spec_matchCount (readWriteOncePodPVCs st) p)"
  by (simp add: conflictingPVCRefCountForPod_def spec_matchCount_def loop_spec)

lemma AddPod_entry:
  "cycleState preFilterStateKey = Some (PreFilterStatePtr (Some r)) \<Longrightarrow>
   AddPod g cycleState X = Inr (updateWithPod g r X 1, None)"
  by (simp add: AddPod_def getPreFilterState_def Read_def)

lemma RemovePod_entry:
  "cycleState preFilterStateKey = Some (PreFilterStatePtr (Some r)) \<Longrightarrow>
   RemovePod g cycleState X = Inr (updateWithPod g r X (- 1), None)"
  by (simp add: RemovePod_def getPreFilterState_def Read_def)

lemma runOps_count:
  assumes key: "cycleState preFilterStateKey = Some (PreFilterStatePtr (Some r))"
  shows "\<exists>g'. runOps cycleState ops g = Inr g'
           \<and> readWriteOncePodPVCs (objs g' r) = readWriteOncePodPVCs (objs g r)
           \<and> conflictingPVCRefCount (objs g' r)
               = conflictingPVCRefCount (objs g r)
                 + of_int (sum_list (map (spec_signedMatchCount (readWriteOncePodPVCs (objs g r))) ops))"
proof (induction ops arbitrary: g)
  case Nil
  show ?case by simp
next
  case (Cons a ops)
  show ?case
  proof (cases a)
    case (AddOp p)
    let ?g1 = "updateWithPod g r p 1"
    have step: "runOp cycleState a g = Inr (?g1, None)"
      using AddOp AddPod_entry[of cycleState r, OF key] by simp
    have set1: "readWriteOncePodPVCs (objs ?g1 r) = readWriteOncePodPVCs (objs g r)"
      by simp
    have count1: "conflictingPVCRefCount (objs ?g1 r)
                    = conflictingPVCRefCount (objs g r)
                      + of_nat (spec_matchCount (readWriteOncePodPVCs (objs g r)) p)"
      by (simp add: updateWithPod_count_same count_spec)
    from Cons.IH[of ?g1] obtain g' where g': "runOps cycleState ops ?g1 = Inr g'"
        "readWriteOncePodPVCs (objs g' r) = readWriteOncePodPVCs (objs ?g1 r)"
        "conflictingPVCRefCount (objs g' r)
           = conflictingPVCRefCount (objs ?g1 r)
             + of_int (sum_list (map (spec_signedMatchCount (readWriteOncePodPVCs (objs ?g1 r))) ops))"
      by blast
    have "runOps cycleState (a # ops) g = Inr g'"
      using step g'(1) by simp
    moreover have "readWriteOncePodPVCs (objs g' r) = readWriteOncePodPVCs (objs g r)"
      using g'(2) set1 by simp
    moreover have "conflictingPVCRefCount (objs g' r)
               = conflictingPVCRefCount (objs g r)
                 + of_int (sum_list (map (spec_signedMatchCount (readWriteOncePodPVCs (objs g r)))
                     (a # ops)))"
      unfolding g'(3) set1 count1 using AddOp by (simp add: add.assoc)
    ultimately show ?thesis by blast
  next
    case (RemoveOp p)
    let ?g1 = "updateWithPod g r p (- 1)"
    have step: "runOp cycleState a g = Inr (?g1, None)"
      using RemoveOp RemovePod_entry[of cycleState r, OF key] by simp
    have set1: "readWriteOncePodPVCs (objs ?g1 r) = readWriteOncePodPVCs (objs g r)"
      by simp
    have count1: "conflictingPVCRefCount (objs ?g1 r)
                    = conflictingPVCRefCount (objs g r)
                      - of_nat (spec_matchCount (readWriteOncePodPVCs (objs g r)) p)"
      by (simp add: updateWithPod_count_same count_spec)
    from Cons.IH[of ?g1] obtain g' where g': "runOps cycleState ops ?g1 = Inr g'"
        "readWriteOncePodPVCs (objs g' r) = readWriteOncePodPVCs (objs ?g1 r)"
        "conflictingPVCRefCount (objs g' r)
           = conflictingPVCRefCount (objs ?g1 r)
             + of_int (sum_list (map (spec_signedMatchCount (readWriteOncePodPVCs (objs ?g1 r))) ops))"
      by blast
    have "runOps cycleState (a # ops) g = Inr g'"
      using step g'(1) by simp
    moreover have "readWriteOncePodPVCs (objs g' r) = readWriteOncePodPVCs (objs g r)"
      using g'(2) set1 by simp
    moreover have "conflictingPVCRefCount (objs g' r)
               = conflictingPVCRefCount (objs g r)
                 + of_int (sum_list (map (spec_signedMatchCount (readWriteOncePodPVCs (objs g r)))
                     (a # ops)))"
      unfolding g'(3) set1 count1 using RemoveOp by simp
    ultimately show ?thesis by blast
  qed
qed

lemma cal_bounds:
  assumes "fcard pvcs < 2 ^ 63"
  shows "\<exists>h' s. calPreFilterState pl h pod pvcs = (h', Inr s)
           \<and> readWriteOncePodPVCs (objs h' s) = pvcs
           \<and> 0 \<le>s conflictingPVCRefCount (objs h' s)
           \<and> sint (conflictingPVCRefCount (objs h' s)) \<le> int (fcard pvcs)"
proof -
  let ?n = "fcard (ffilter (\<lambda>pvc. sharedLister pl (GetNamespacedName (Pod_Namespace pod) pvc)) pvcs)"
  have le: "?n \<le> fcard pvcs"
    by (rule fcard_mono) auto
  with assms have lt: "?n < 2 ^ 63" by simp
  have "sint (of_nat ?n :: 64 word) = signed_take_bit 63 (int ?n)"
    by (simp add: signed_of_nat)
  also have "\<dots> = int ?n"
    by (rule signed_take_bit_int_eq_self) (use lt in simp_all)
  finally have "sint (of_nat ?n :: 64 word) = int ?n" .
  then show ?thesis using le
    by (simp add: calPreFilterState_def Let_def word_sle_eq)
qed

text \<open>
  Claim C3, as the code has it. An entry made by \<^verbatim>\<open>calPreFilterState\<close> for fewer than
  \<open>2 ^ 63\<close> claim names starts with its counter between zero and the number of names in
  its set. On a cycle state that holds the entry, \<^verbatim>\<open>AddPod\<close> and \<^verbatim>\<open>RemovePod\<close> do not
  clamp: \<^verbatim>\<open>AddPod\<close> adds to the counter, and \<^verbatim>\<open>RemovePod\<close> subtracts from it, the number
  of the pod's claim-backed volumes that name a claim in the entry's set, and after any
  sequence of them the counter is its value before the sequence plus the sum of those
  numbers, each with the sign of its call (in 64-bit arithmetic); the set is unchanged.
\<close>

theorem counter_after_operations:
  "(fcard pvcs < 2 ^ 63 \<longrightarrow>
      (\<exists>h' s. calPreFilterState pl h pod pvcs = (h', Inr s)
         \<and> readWriteOncePodPVCs (objs h' s) = pvcs
         \<and> 0 \<le>s conflictingPVCRefCount (objs h' s)
         \<and> sint (conflictingPVCRefCount (objs h' s)) \<le> int (fcard pvcs)))
   \<and> (cycleState preFilterStateKey = Some (PreFilterStatePtr (Some r)) \<longrightarrow>
        (\<exists>g'. AddPod g cycleState X = Inr (g', None)
           \<and> readWriteOncePodPVCs (objs g' r) = readWriteOncePodPVCs (objs g r)
           \<and> conflictingPVCRefCount (objs g' r)
               = conflictingPVCRefCount (objs g r)
                 + of_nat (spec_matchCount (readWriteOncePodPVCs (objs g r)) X))
      \<and> (\<exists>g'. RemovePod g cycleState X = Inr (g', None)
           \<and> readWriteOncePodPVCs (objs g' r) = readWriteOncePodPVCs (objs g r)
           \<and> conflictingPVCRefCount (objs g' r)
               = conflictingPVCRefCount (objs g r)
                 - of_nat (spec_matchCount (readWriteOncePodPVCs (objs g r)) X))
      \<and> (\<exists>g'. runOps cycleState ops g = Inr g'
           \<and> readWriteOncePodPVCs (objs g' r) = readWriteOncePodPVCs (objs g r)
           \<and> conflictingPVCRefCount (objs g' r)
               = conflictingPVCRefCount (objs g r)
                 + of_int (sum_list
                     (map (spec_signedMatchCount (readWriteOncePodPVCs (objs g r))) ops))))"
proof (intro conjI impI)
  assume "fcard pvcs < 2 ^ 63"
  then show "\<exists>h' s. calPreFilterState pl h pod pvcs = (h', Inr s)
         \<and> readWriteOncePodPVCs (objs h' s) = pvcs
         \<and> 0 \<le>s conflictingPVCRefCount (objs h' s)
         \<and> sint (conflictingPVCRefCount (objs h' s)) \<le> int (fcard pvcs)"
    by (rule cal_bounds)
next
  assume key: "cycleState preFilterStateKey = Some (PreFilterStatePtr (Some r))"
  show "\<exists>g'. AddPod g cycleState X = Inr (g', None)
           \<and> readWriteOncePodPVCs (objs g' r) = readWriteOncePodPVCs (objs g r)
           \<and> conflictingPVCRefCount (objs g' r)
               = conflictingPVCRefCount (objs g r)
                 + of_nat (spec_matchCount (readWriteOncePodPVCs (objs g r)) X)"
    by (simp add: AddPod_entry[of cycleState r, OF key] updateWithPod_count_same count_spec)
  show "\<exists>g'. RemovePod g cycleState X = Inr (g', None)
           \<and> readWriteOncePodPVCs (objs g' r) = readWriteOncePodPVCs (objs g r)
           \<and> conflictingPVCRefCount (objs g' r)
               = conflictingPVCRefCount (objs g r)
                 - of_nat (spec_matchCount (readWriteOncePodPVCs (objs g r)) X)"
    by (simp add: RemovePod_entry[of cycleState r, OF key] updateWithPod_count_same count_spec)
  show "\<exists>g'. runOps cycleState ops g = Inr g'
           \<and> readWriteOncePodPVCs (objs g' r) = readWriteOncePodPVCs (objs g r)
           \<and> conflictingPVCRefCount (objs g' r)
               = conflictingPVCRefCount (objs g r)
                 + of_int (sum_list
                     (map (spec_signedMatchCount (readWriteOncePodPVCs (objs g r))) ops))"
    by (rule runOps_count[of cycleState r, OF key])
qed

theorem counter_after_operations_witness:
  "fcard {|''c1'', ''c2''|} < 2 ^ 63
   \<and> (\<exists>h'. calPreFilterState (pluginWith [] [''ns/c1'']) emptyHeap (podWith ''ns'' [])
              {|''c1'', ''c2''|} = (h', Inr 0)
         \<and> sint (conflictingPVCRefCount (objs h' 0)) = 1
         \<and> (\<exists>g'. AddPod h' [preFilterStateKey \<mapsto> PreFilterStatePtr (Some 0)]
                    \<lparr>Pod = podWith ''ns'' [claimVolume ''c2'', claimVolume ''c2'', claimVolume ''c3'']\<rparr>
                    = Inr (g', None)
               \<and> conflictingPVCRefCount (objs g' 0) = 3)
         \<and> (\<exists>g'. RemovePod h' [preFilterStateKey \<mapsto> PreFilterStatePtr (Some 0)]
                    \<lparr>Pod = podWith ''ns'' [claimVolume ''c1'']\<rparr> = Inr (g', None)
               \<and> conflictingPVCRefCount (objs g' 0) = 0)
         \<and> (\<exists>g'. runOps [preFilterStateKey \<mapsto> PreFilterStatePtr (Some 0)]
                    [RemoveOp \<lparr>Pod = podWith ''ns'' [claimVolume ''c1'']\<rparr>,
                     AddOp \<lparr>Pod = podWith ''ns''
                              [claimVolume ''c2'', claimVolume ''c2'', claimVolume ''c3'']\<rparr>] h'
                    = Inr g'
               \<and> conflictingPVCRefCount (objs g' 0) = 2))"
  using counter_after_operations
    [of "{|''c1'', ''c2''|}" "pluginWith [] [''ns/c1'']" emptyHeap "podWith ''ns'' []"
        "[preFilterStateKey \<mapsto> PreFilterStatePtr (Some 0)]" 0
        "fst (calPreFilterState (pluginWith [] [''ns/c1'']) emptyHeap (podWith ''ns'' [])
           {|''c1'', ''c2''|})"
        "\<lparr>Pod = podWith ''ns'' [claimVolume ''c1'']\<rparr>"
        "[RemoveOp \<lparr>Pod = podWith ''ns'' [claimVolume ''c1'']\<rparr>,
          AddOp \<lparr>Pod = podWith ''ns''
                   [claimVolume ''c2'', claimVolume ''c2'', claimVolume ''c3'']\<rparr>]"]
  by (simp add: calPreFilterState_def pluginWith_def emptyHeap_def podWith_def updateWithPod_def
      AddPod_def RemovePod_def getPreFilterState_def Read_def
      conflictingPVCRefCountForPod_def claimVolume_def noVolume_def fset_eval GetNamespacedName_def)

text \<open>
  The bound of claim C3 fails after a single operation: on a fresh entry for the set
  \<open>{c1}\<close> with no claim in use, removing a pod that mounts \<open>c1\<close> makes the counter
  \<open>-1\<close>, and adding a pod that mounts \<open>c1\<close> through two volumes makes it \<open>2\<close>, above
  the size \<open>1\<close> of the set.
\<close>

theorem counter_bounds_counterexample:
  "snd (calPreFilterState (pluginWith [] []) emptyHeap (podWith ''ns'' []) {|''c1''|}) = Inr 0
   \<and> sint (conflictingPVCRefCount (objs (fst (calPreFilterState (pluginWith [] []) emptyHeap
        (podWith ''ns'' []) {|''c1''|})) 0)) = 0
   \<and> sint (conflictingPVCRefCount (objs (updateWithPod
        (fst (calPreFilterState (pluginWith [] []) emptyHeap (podWith ''ns'' []) {|''c1''|}))
        0 \<lparr>Pod = podWith ''ns'' [claimVolume ''c1'']\<rparr> (- 1)) 0)) = - 1
   \<and> sint (conflictingPVCRefCount (objs (updateWithPod
        (fst (calPreFilterState (pluginWith [] []) emptyHeap (podWith ''ns'' []) {|''c1''|}))
        0 \<lparr>Pod = podWith ''ns'' [claimVolume ''c1'', claimVolume ''c1'']\<rparr> 1) 0)) = 2
   \<and> fcard (readWriteOncePodPVCs (objs (updateWithPod
        (fst (calPreFilterState (pluginWith [] []) emptyHeap (podWith ''ns'' []) {|''c1''|}))
        0 \<lparr>Pod = podWith ''ns'' [claimVolume ''c1'', claimVolume ''c1'']\<rparr> 1) 0)) = 1"
  by (simp add: calPreFilterState_def pluginWith_def emptyHeap_def podWith_def updateWithPod_def
      conflictingPVCRefCountForPod_def claimVolume_def noVolume_def fset_eval)

section \<open>Cloning the cache entry\<close>



section \<open>Filter\<close>

lemma satisfyVolumeConflicts_pods_iff:
  "satisfyVolumeConflicts_pods v pods \<longleftrightarrow> \<not> (\<exists>ev\<in>set pods. isVolumeConflict v (Pod ev))"
  by (induction pods) auto

lemma satisfyVolumeConflicts_loop_iff:
  "satisfyVolumeConflicts_loop vs nodeInfo \<longleftrightarrow>
     \<not> (\<exists>v\<in>set vs. needsRestrictionsCheck v
           \<and> (\<exists>ev\<in>set (Pods nodeInfo). isVolumeConflict v (Pod ev)))"
  by (induction vs) (auto simp: satisfyVolumeConflicts_pods_iff)

lemma satisfyVolumeConflicts_iff:
  "satisfyVolumeConflicts pod nodeInfo \<longleftrightarrow>
     \<not> (\<exists>v\<in>set (Volumes (Spec pod)). needsRestrictionsCheck v
           \<and> (\<exists>ev\<in>set (Pods nodeInfo). isVolumeConflict v (Pod ev)))"
  by (simp add: satisfyVolumeConflicts_def satisfyVolumeConflicts_loop_iff)

lemma reasons_differ: "ErrReasonReadWriteOncePodConflict \<noteq> ErrReasonDiskConflict"
  by (simp add: ErrReasonReadWriteOncePodConflict_def ErrReasonDiskConflict_def)

lemma Filter_conflict:
  "\<not> satisfyVolumeConflicts pod nodeInfo \<Longrightarrow>
   Filter h cycleState pod nodeInfo = Inr (Some (NewStatus Unschedulable [ErrReasonDiskConflict]))"
  by (simp add: Filter_def)

lemma Filter_no_conflict:
  "satisfyVolumeConflicts pod nodeInfo \<Longrightarrow>
   Filter h cycleState pod nodeInfo =
     (case getPreFilterState cycleState of
        Inl p \<Rightarrow> Inl p
      | Inr (Inl err) \<Rightarrow> Inr (Some (AsStatus err))
      | Inr (Inr state) \<Rightarrow> Inr (satisfyReadWriteOncePod h state))"
  by (simp add: Filter_def)

lemma Filter_disk_iff:
  "Filter h cycleState pod nodeInfo = Inr (Some (NewStatus Unschedulable [ErrReasonDiskConflict]))
     \<longleftrightarrow> \<not> satisfyVolumeConflicts pod nodeInfo"
  by (auto simp: Filter_def satisfyReadWriteOncePod_def reasons_differ
      split: sum.splits option.splits if_splits)

text \<open>
  Claim C1, as the code has it. \<^verbatim>\<open>Filter\<close> rejects with the disk-conflict reason exactly
  when some conflict-relevant volume of the candidate pod conflicts, by the conflict
  matcher, with some pod resident on the node. Otherwise: with a cache entry in the cycle
  state it rejects with the exclusive-claim reason exactly when the counter of the entry
  is positive, and admits exactly when it is not; with a nil entry pointer it admits;
  with no entry under the plugin's key it returns the error status of the failed read;
  with the data of another plugin under the key it returns the error status of the failed
  conversion; and with a nil interface stored under the key the read panics.
\<close>

theorem filter_outcome:
  "(Filter h cycleState pod nodeInfo
        = Inr (Some (NewStatus Unschedulable [ErrReasonDiskConflict]))
      \<longleftrightarrow> (\<exists>v\<in>set (Volumes (Spec pod)). needsRestrictionsCheck v
             \<and> (\<exists>ev\<in>set (Pods nodeInfo). isVolumeConflict v (Pod ev))))
   \<and> (\<not> (\<exists>v\<in>set (Volumes (Spec pod)). needsRestrictionsCheck v
             \<and> (\<exists>ev\<in>set (Pods nodeInfo). isVolumeConflict v (Pod ev))) \<longrightarrow>
        (\<forall>s. cycleState preFilterStateKey = Some (PreFilterStatePtr (Some s)) \<longrightarrow>
           (Filter h cycleState pod nodeInfo
                = Inr (Some (NewStatus Unschedulable [ErrReasonReadWriteOncePodConflict]))
              \<longleftrightarrow> 0 <s conflictingPVCRefCount (objs h s))
         \<and> (Filter h cycleState pod nodeInfo = Inr None
              \<longleftrightarrow> \<not> 0 <s conflictingPVCRefCount (objs h s)))
      \<and> (cycleState preFilterStateKey = Some (PreFilterStatePtr None) \<longrightarrow>
           Filter h cycleState pod nodeInfo = Inr None)
      \<and> (cycleState preFilterStateKey = None \<longrightarrow>
           Filter h cycleState pod nodeInfo = Inr (Some (AsStatus (ErrCannotRead
             (''cannot read '' @ [CHR 0x22] @ preFilterStateKey @ [CHR 0x22]
                @ '' from cycleState'')))))
      \<and> (\<forall>printed. cycleState preFilterStateKey = Some (OtherStateData printed) \<longrightarrow>
           Filter h cycleState pod nodeInfo
             = Inr (Some (AsStatus (ErrConvert
                 (printed @ '' convert to volumerestrictions.state error'')))))
      \<and> (cycleState preFilterStateKey = Some NilStateData \<longrightarrow>
           Filter h cycleState pod nodeInfo = Inl InterfaceConversion))"
proof -
  let ?D = "\<exists>v\<in>set (Volumes (Spec pod)). needsRestrictionsCheck v
              \<and> (\<exists>ev\<in>set (Pods nodeInfo). isVolumeConflict v (Pod ev))"
  let ?F = "Filter h cycleState pod nodeInfo"
  have sat: "satisfyVolumeConflicts pod nodeInfo \<longleftrightarrow> \<not> ?D"
    by (rule satisfyVolumeConflicts_iff)
  have c1: "?F = Inr (Some (NewStatus Unschedulable [ErrReasonDiskConflict])) \<longleftrightarrow> ?D"
    using Filter_disk_iff[of h cycleState pod nodeInfo] sat by blast
  have c2: "(?F = Inr (Some (NewStatus Unschedulable [ErrReasonReadWriteOncePodConflict]))
               \<longleftrightarrow> 0 <s conflictingPVCRefCount (objs h s))
            \<and> (?F = Inr None \<longleftrightarrow> \<not> 0 <s conflictingPVCRefCount (objs h s))"
    if "\<not> ?D" "cycleState preFilterStateKey = Some (PreFilterStatePtr (Some s))" for s
  proof -
    from that(1) sat have "satisfyVolumeConflicts pod nodeInfo" by blast
    from Filter_no_conflict[OF this] that(2) show ?thesis
      by (simp add: getPreFilterState_def Read_def satisfyReadWriteOncePod_def)
  qed
  have c3: "?F = Inr None"
    if "\<not> ?D" "cycleState preFilterStateKey = Some (PreFilterStatePtr None)"
  proof -
    from that(1) sat have "satisfyVolumeConflicts pod nodeInfo" by blast
    from Filter_no_conflict[OF this] that(2) show ?thesis
      by (simp add: getPreFilterState_def Read_def satisfyReadWriteOncePod_def)
  qed
  have c4: "?F = Inr (Some (AsStatus (ErrCannotRead
              (''cannot read '' @ [CHR 0x22] @ preFilterStateKey @ [CHR 0x22]
                 @ '' from cycleState''))))"
    if "\<not> ?D" "cycleState preFilterStateKey = None"
  proof -
    from that(1) sat have "satisfyVolumeConflicts pod nodeInfo" by blast
    from Filter_no_conflict[OF this] that(2) show ?thesis
      by (simp add: getPreFilterState_def Read_def)
  qed
  have c5: "?F = Inr (Some (AsStatus (ErrConvert
              (printed @ '' convert to volumerestrictions.state error''))))"
    if "\<not> ?D" "cycleState preFilterStateKey = Some (OtherStateData printed)" for printed
  proof -
    from that(1) sat have "satisfyVolumeConflicts pod nodeInfo" by blast
    from Filter_no_conflict[OF this] that(2) show ?thesis
      by (simp add: getPreFilterState_def Read_def)
  qed
  have c6: "?F = Inl InterfaceConversion"
    if "\<not> ?D" "cycleState preFilterStateKey = Some NilStateData"
  proof -
    from that(1) sat have "satisfyVolumeConflicts pod nodeInfo" by blast
    from Filter_no_conflict[OF this] that(2) show ?thesis
      by (simp add: getPreFilterState_def Read_def)
  qed
  from c1 c2 c3 c4 c5 c6 show ?thesis by blast
qed

theorem filter_outcome_witness:
  "Filter (heapWith \<lparr>readWriteOncePodPVCs = {|''c1''|}, conflictingPVCRefCount = 1\<rparr>)
       [preFilterStateKey \<mapsto> PreFilterStatePtr (Some 0)]
       (podWith ''ns'' [claimVolume ''c1'', rbdVolume [''m1'', ''m2''] ''p'' ''img'' False])
       \<lparr>Pods = [\<lparr>Pod = podWith ''ns'' [rbdVolume [''m2''] ''p'' ''img'' False]\<rparr>]\<rparr>
     = Inr (Some (NewStatus Unschedulable [ErrReasonDiskConflict]))
   \<and> Filter (heapWith \<lparr>readWriteOncePodPVCs = {|''c1''|}, conflictingPVCRefCount = 1\<rparr>)
       [preFilterStateKey \<mapsto> PreFilterStatePtr (Some 0)]
       (podWith ''ns'' [claimVolume ''c1'']) \<lparr>Pods = []\<rparr>
     = Inr (Some (NewStatus Unschedulable [ErrReasonReadWriteOncePodConflict]))
   \<and> Filter (heapWith \<lparr>readWriteOncePodPVCs = {|''c1''|}, conflictingPVCRefCount = 0\<rparr>)
       [preFilterStateKey \<mapsto> PreFilterStatePtr (Some 0)]
       (podWith ''ns'' [claimVolume ''c1'']) \<lparr>Pods = []\<rparr>
     = Inr None
   \<and> Filter emptyHeap Map.empty (podWith ''ns'' [claimVolume ''c1'']) \<lparr>Pods = []\<rparr>
     = Inr (Some (AsStatus (ErrCannotRead
         (''cannot read '' @ [CHR 0x22] @ preFilterStateKey @ [CHR 0x22] @ '' from cycleState''))))
   \<and> Filter emptyHeap [preFilterStateKey \<mapsto> NilStateData]
       (podWith ''ns'' [claimVolume ''c1'']) \<lparr>Pods = []\<rparr>
     = Inl InterfaceConversion
   \<and> Filter emptyHeap [preFilterStateKey \<mapsto> PreFilterStatePtr None]
       (podWith ''ns'' [claimVolume ''c1'']) \<lparr>Pods = []\<rparr>
     = Inr None"
  using
    filter_outcome [of "heapWith \<lparr>readWriteOncePodPVCs = {|''c1''|}, conflictingPVCRefCount = 1\<rparr>"
       "[preFilterStateKey \<mapsto> PreFilterStatePtr (Some 0)]"
       "podWith ''ns'' [claimVolume ''c1'', rbdVolume [''m1'', ''m2''] ''p'' ''img'' False]"
       "\<lparr>Pods = [\<lparr>Pod = podWith ''ns'' [rbdVolume [''m2''] ''p'' ''img'' False]\<rparr>]\<rparr>"]
    filter_outcome [of "heapWith \<lparr>readWriteOncePodPVCs = {|''c1''|}, conflictingPVCRefCount = 1\<rparr>"
       "[preFilterStateKey \<mapsto> PreFilterStatePtr (Some 0)]"
       "podWith ''ns'' [claimVolume ''c1'']" "\<lparr>Pods = []\<rparr>"]
    filter_outcome [of "heapWith \<lparr>readWriteOncePodPVCs = {|''c1''|}, conflictingPVCRefCount = 0\<rparr>"
       "[preFilterStateKey \<mapsto> PreFilterStatePtr (Some 0)]"
       "podWith ''ns'' [claimVolume ''c1'']" "\<lparr>Pods = []\<rparr>"]
    filter_outcome [of emptyHeap Map.empty "podWith ''ns'' [claimVolume ''c1'']" "\<lparr>Pods = []\<rparr>"]
    filter_outcome [of emptyHeap "[preFilterStateKey \<mapsto> NilStateData]"
       "podWith ''ns'' [claimVolume ''c1'']" "\<lparr>Pods = []\<rparr>"]
    filter_outcome [of emptyHeap "[preFilterStateKey \<mapsto> PreFilterStatePtr None]"
       "podWith ''ns'' [claimVolume ''c1'']" "\<lparr>Pods = []\<rparr>"]
  by (simp add: heapWith_def podWith_def claimVolume_def rbdVolume_def noVolume_def
      needsRestrictionsCheck_def isVolumeConflict_def gceConflict_def awsConflict_def
      iscsiConflict_def rbdConflict_def haveOverlap_def word_sless_alt)

text \<open>
  Claim C1 says that \<^verbatim>\<open>Filter\<close> admits when no cache entry is present. On an empty cycle
  state, for a pod without volumes and a node without pods, \<^verbatim>\<open>Filter\<close> returns an error
  status instead.
\<close>

theorem filter_missing_state_counterexample:
  "Filter emptyHeap Map.empty (podWith ''ns'' []) \<lparr>Pods = []\<rparr>
     = Inr (Some (AsStatus (ErrCannotRead
         (''cannot read '' @ [CHR 0x22] @ ''PreFilterVolumeRestrictions'' @ [CHR 0x22]
            @ '' from cycleState''))))"
  by (simp add: Filter_def satisfyVolumeConflicts_def podWith_def getPreFilterState_def Read_def
      preFilterStateKey_def Name_def)

section \<open>PreFilter\<close>

lemma needsCheck_loop_iff: "needsCheck_loop vs \<longleftrightarrow> (\<exists>v\<in>set vs. needsRestrictionsCheck v)"
  by (induction vs) auto

lemma PreFilter_Inl:
  "readWriteOncePodPVCsForPod pl pod False = Inl err \<Longrightarrow>
   PreFilter pl h cycleState pod =
     (h, cycleState, Some (if IsNotFound err
                           then NewStatus UnschedulableAndUnresolvable [Error_text err]
                           else AsStatus err))"
  by (simp add: PreFilter_def)

lemma PreFilter_Inr:
  "readWriteOncePodPVCsForPod pl pod False = Inr pvcs \<Longrightarrow>
   PreFilter pl h cycleState pod =
     (let c = (of_nat (fcard (ffilter
                 (\<lambda>pvc. sharedLister pl (GetNamespacedName (Pod_Namespace pod) pvc)) pvcs)) :: 64 word);
          h' = h\<lparr>objs := (objs h)(next_ref h :=
                  \<lparr>readWriteOncePodPVCs = pvcs, conflictingPVCRefCount = c\<rparr>),
                next_ref := Suc (next_ref h)\<rparr>
      in if (\<forall>v\<in>set (Volumes (Spec pod)). \<not> needsRestrictionsCheck v) \<and> c = 0
         then (h', cycleState, Some (NewStatus Skip []))
         else (h', cycleState(preFilterStateKey \<mapsto> PreFilterStatePtr (Some (next_ref h))), None))"
  by (simp add: PreFilter_def calPreFilterState_def Let_def needsCheck_loop_iff)

text \<open>
  Claim C5, as the code has it. When the lookup of one of the pod's claims fails,
  \<^verbatim>\<open>PreFilter\<close> returns an error status (unschedulable-and-unresolvable for a claim that
  is not found, an error otherwise) and leaves store and cycle state as they were. When
  every lookup succeeds, \<^verbatim>\<open>PreFilter\<close> computes the cache entry, and it returns \<^verbatim>\<open>Skip\<close>
  without writing the cycle state exactly when the pod has no volume of the four
  conflict-relevant kinds and the counter of the entry is zero; in every other case it
  writes the entry under the plugin's key and returns success.
\<close>

theorem prefilter_outcome:
  "(\<forall>err. readWriteOncePodPVCsForPod pl pod False = Inl err \<longrightarrow>
      PreFilter pl h cycleState pod =
        (h, cycleState, Some (if IsNotFound err
                              then NewStatus UnschedulableAndUnresolvable [Error_text err]
                              else AsStatus err)))
   \<and> (\<forall>pvcs. readWriteOncePodPVCsForPod pl pod False = Inr pvcs \<longrightarrow>
        (\<exists>h' cycleState' status.
           PreFilter pl h cycleState pod = (h', cycleState', status)
         \<and> objs h' (next_ref h) =
             \<lparr>readWriteOncePodPVCs = pvcs,
              conflictingPVCRefCount = of_nat (fcard (ffilter
                (\<lambda>pvc. sharedLister pl (GetNamespacedName (Pod_Namespace pod) pvc)) pvcs))\<rparr>
         \<and> (status = Some (NewStatus Skip []) \<and> cycleState' = cycleState
              \<longleftrightarrow> (\<forall>v\<in>set (Volumes (Spec pod)). \<not> needsRestrictionsCheck v)
                  \<and> conflictingPVCRefCount (objs h' (next_ref h)) = 0)
         \<and> (status = None
                \<and> cycleState' = cycleState(preFilterStateKey \<mapsto> PreFilterStatePtr (Some (next_ref h)))
              \<longleftrightarrow> \<not> ((\<forall>v\<in>set (Volumes (Spec pod)). \<not> needsRestrictionsCheck v)
                     \<and> conflictingPVCRefCount (objs h' (next_ref h)) = 0))))"
proof (intro conjI allI impI)
  fix err assume "readWriteOncePodPVCsForPod pl pod False = Inl err"
  then show "PreFilter pl h cycleState pod =
        (h, cycleState, Some (if IsNotFound err
                              then NewStatus UnschedulableAndUnresolvable [Error_text err]
                              else AsStatus err))"
    by (rule PreFilter_Inl)
next
  fix pvcs assume "readWriteOncePodPVCsForPod pl pod False = Inr pvcs"
  from PreFilter_Inr[OF this, of h cycleState]
  show "\<exists>h' cycleState' status.
           PreFilter pl h cycleState pod = (h', cycleState', status)
         \<and> objs h' (next_ref h) =
             \<lparr>readWriteOncePodPVCs = pvcs,
              conflictingPVCRefCount = of_nat (fcard (ffilter
                (\<lambda>pvc. sharedLister pl (GetNamespacedName (Pod_Namespace pod) pvc)) pvcs))\<rparr>
         \<and> (status = Some (NewStatus Skip []) \<and> cycleState' = cycleState
              \<longleftrightarrow> (\<forall>v\<in>set (Volumes (Spec pod)). \<not> needsRestrictionsCheck v)
                  \<and> conflictingPVCRefCount (objs h' (next_ref h)) = 0)
         \<and> (status = None
                \<and> cycleState' = cycleState(preFilterStateKey \<mapsto> PreFilterStatePtr (Some (next_ref h)))
              \<longleftrightarrow> \<not> ((\<forall>v\<in>set (Volumes (Spec pod)). \<not> needsRestrictionsCheck v)
                     \<and> conflictingPVCRefCount (objs h' (next_ref h)) = 0))"
    by (simp add: Let_def)
qed

theorem prefilter_outcome_witness:
  "readWriteOncePodPVCsForPod (pluginWith [((''ns'', ''c1''), Inr [ReadWriteOncePod])] [''ns/c1''])
       (podWith ''ns'' [claimVolume ''c1'']) False = Inr {|''c1''|}
   \<and> snd (snd (PreFilter (pluginWith [((''ns'', ''c1''), Inr [ReadWriteOncePod])] [''ns/c1''])
       emptyHeap Map.empty (podWith ''ns'' [claimVolume ''c1'']))) = None
   \<and> fst (snd (PreFilter (pluginWith [((''ns'', ''c1''), Inr [ReadWriteOncePod])] [''ns/c1''])
       emptyHeap Map.empty (podWith ''ns'' [claimVolume ''c1'']))) preFilterStateKey
       = Some (PreFilterStatePtr (Some 0))
   \<and> conflictingPVCRefCount (objs (fst (PreFilter
       (pluginWith [((''ns'', ''c1''), Inr [ReadWriteOncePod])] [''ns/c1''])
       emptyHeap Map.empty (podWith ''ns'' [claimVolume ''c1'']))) 0) = 1
   \<and> snd (PreFilter (pluginWith [((''ns'', ''c1''), Inr [ReadWriteOncePod])] [])
       emptyHeap Map.empty (podWith ''ns'' [claimVolume ''c1'']))
       = (Map.empty, Some (NewStatus Skip []))
   \<and> readWriteOncePodPVCsForPod (pluginWith [] []) (podWith ''ns'' [claimVolume ''c1'']) False
       = Inl (ErrClaimNotFound ''c1 not found'')
   \<and> PreFilter (pluginWith [] []) emptyHeap Map.empty (podWith ''ns'' [claimVolume ''c1''])
       = (emptyHeap, Map.empty, Some (NewStatus UnschedulableAndUnresolvable [''c1 not found'']))"
  using
    prefilter_outcome [of "pluginWith [((''ns'', ''c1''), Inr [ReadWriteOncePod])] [''ns/c1'']"
      "podWith ''ns'' [claimVolume ''c1'']" emptyHeap Map.empty]
    prefilter_outcome [of "pluginWith [((''ns'', ''c1''), Inr [ReadWriteOncePod])] []"
      "podWith ''ns'' [claimVolume ''c1'']" emptyHeap Map.empty]
    prefilter_outcome [of "pluginWith [] []" "podWith ''ns'' [claimVolume ''c1'']" emptyHeap Map.empty]
  by (simp add: PreFilter_def calPreFilterState_def readWriteOncePodPVCsForPod_def pluginWith_def
      claimStore_def podWith_def claimVolume_def noVolume_def needsRestrictionsCheck_def
      ContainsAccessMode_def GetNamespacedName_def fset_eval emptyHeap_def)

text \<open>
  Claim C5 leaves no room for a third outcome. A pod with a GCE disk and a volume backed
  by a claim that does not exist gets neither \<^verbatim>\<open>Skip\<close> nor success: \<^verbatim>\<open>PreFilter\<close> returns
  the unschedulable-and-unresolvable status and writes nothing.
\<close>

theorem prefilter_lookup_failure_counterexample:
  "PreFilter (pluginWith [] []) emptyHeap Map.empty
       (podWith ''ns'' [gceVolume ''d'' False, claimVolume ''missing''])
     = (emptyHeap, Map.empty,
        Some (NewStatus UnschedulableAndUnresolvable [''missing not found'']))"
  by (simp add: PreFilter_def readWriteOncePodPVCsForPod_def pluginWith_def claimStore_def
      podWith_def gceVolume_def claimVolume_def noVolume_def needsRestrictionsCheck_def)

section \<open>The exclusive-claim resolver\<close>

lemma claimNamesOf_Nil [simp]: "claimNamesOf [] = []"
  by (simp add: claimNamesOf_def map_filter_simps)

lemma claimNamesOf_Cons [simp]:
  "claimNamesOf (v # vs) =
     (case PersistentVolumeClaim v of None \<Rightarrow> claimNamesOf vs
      | Some claim \<Rightarrow> ClaimName claim # claimNamesOf vs)"
  by (simp add: claimNamesOf_def map_filter_simps split: option.splits)

lemma first_failure_Cons:
  "(\<exists>pre n post. x # names = pre @ n # post \<and> Q n \<and> (\<forall>m\<in>set pre. P m))
     \<longleftrightarrow> Q x \<or> (P x \<and> (\<exists>pre n post. names = pre @ n # post \<and> Q n \<and> (\<forall>m\<in>set pre. P m)))"
  (is "?L \<longleftrightarrow> ?R")
proof
  assume ?L
  then obtain pre n post where *: "x # names = pre @ n # post" "Q n" "\<forall>m\<in>set pre. P m"
    by blast
  show ?R
  proof (cases pre)
    case Nil
    with * show ?thesis by simp
  next
    case (Cons a pre')
    with * have "names = pre' @ n # post" "P x" "\<forall>m\<in>set pre'. P m" by auto
    with *(2) show ?thesis by blast
  qed
next
  assume ?R
  then show ?L
  proof
    assume "Q x"
    then have "x # names = [] @ x # names \<and> Q x \<and> (\<forall>m\<in>set []. P m)" by simp
    then show ?thesis by blast
  next
    assume "P x \<and> (\<exists>pre n post. names = pre @ n # post \<and> Q n \<and> (\<forall>m\<in>set pre. P m))"
    then obtain pre n post where "P x" "names = pre @ n # post" "Q n" "\<forall>m\<in>set pre. P m"
      by blast
    then have "x # names = (x # pre) @ n # post \<and> Q n \<and> (\<forall>m\<in>set (x # pre). P m)" by simp
    then show ?thesis by blast
  qed
qed

lemma rwop_loop_Inl_iff:
  "readWriteOncePodPVCsForPod_loop pl ns ign vs acc = Inl e \<longleftrightarrow>
     (\<exists>pre n post. claimNamesOf vs = pre @ n # post
        \<and> (pvcLister pl ns n = Inl e \<and> \<not> (ign \<and> IsNotFound e))
        \<and> (\<forall>m\<in>set pre. \<forall>e'. pvcLister pl ns m = Inl e' \<longrightarrow> ign \<and> IsNotFound e'))"
proof (induction vs arbitrary: acc)
  case Nil
  show ?case by simp
next
  case (Cons v vs)
  let ?Q = "\<lambda>n. pvcLister pl ns n = Inl e \<and> \<not> (ign \<and> IsNotFound e)"
  let ?P = "\<lambda>m. \<forall>e'. pvcLister pl ns m = Inl e' \<longrightarrow> ign \<and> IsNotFound e'"
  let ?R = "\<lambda>names. \<exists>pre n post. names = pre @ n # post \<and> ?Q n \<and> (\<forall>m\<in>set pre. ?P m)"
  have IH: "readWriteOncePodPVCsForPod_loop pl ns ign vs acc' = Inl e \<longleftrightarrow> ?R (claimNamesOf vs)"
    for acc' by (rule Cons.IH)
  show ?case
  proof (cases "PersistentVolumeClaim v")
    case None
    then show ?thesis by (simp add: Cons.IH)
  next
    case (Some claim)
    have step: "?R (ClaimName claim # claimNamesOf vs)
                  \<longleftrightarrow> ?Q (ClaimName claim) \<or> (?P (ClaimName claim) \<and> ?R (claimNamesOf vs))"
      by (rule first_failure_Cons)
    have names: "claimNamesOf (v # vs) = ClaimName claim # claimNamesOf vs"
      using Some by simp
    show ?thesis
    proof (cases "pvcLister pl ns (ClaimName claim)")
      case (Inl e0)
      show ?thesis
      proof (cases "ign \<and> IsNotFound e0")
        case True
        have eq: "readWriteOncePodPVCsForPod_loop pl ns ign (v # vs) acc
                     = readWriteOncePodPVCsForPod_loop pl ns ign vs acc"
          using Some Inl True by simp
        have "\<not> ?Q (ClaimName claim)" "?P (ClaimName claim)"
          using Inl True by auto
        with step have "?R (ClaimName claim # claimNamesOf vs) \<longleftrightarrow> ?R (claimNamesOf vs)"
          by blast
        with IH[of acc] show ?thesis
          unfolding names eq by blast
      next
        case False
        have eq: "readWriteOncePodPVCsForPod_loop pl ns ign (v # vs) acc = Inl e0"
          using Some Inl False by auto
        have "?Q (ClaimName claim) \<longleftrightarrow> e0 = e" "\<not> ?P (ClaimName claim)"
          using Inl False by auto
        with step have "?R (ClaimName claim # claimNamesOf vs) \<longleftrightarrow> e0 = e"
          by blast
        then show ?thesis
          unfolding names eq by simp
      qed
    next
      case (Inr pvc)
      have "\<exists>acc'. readWriteOncePodPVCsForPod_loop pl ns ign (v # vs) acc
                   = readWriteOncePodPVCsForPod_loop pl ns ign vs acc'"
        using Some Inr by (cases "ContainsAccessMode (AccessModes (PVC_Spec pvc)) ReadWriteOncePod") auto
      then obtain acc' where eq: "readWriteOncePodPVCsForPod_loop pl ns ign (v # vs) acc
                   = readWriteOncePodPVCsForPod_loop pl ns ign vs acc'" ..
      have "\<not> ?Q (ClaimName claim)" "?P (ClaimName claim)"
        using Inr by auto
      with step have "?R (ClaimName claim # claimNamesOf vs) \<longleftrightarrow> ?R (claimNamesOf vs)"
        by blast
      with IH[of acc'] show ?thesis
        unfolding names eq by blast
    qed
  qed
qed

lemma rwop_loop_Inr:
  "readWriteOncePodPVCsForPod_loop pl ns ign vs acc = Inr S \<Longrightarrow>
     fset S = fset acc \<union> {PVC_Name pvc | n pvc. n \<in> set (claimNamesOf vs)
                \<and> pvcLister pl ns n = Inr pvc
                \<and> ReadWriteOncePod \<in> set (AccessModes (PVC_Spec pvc))}"
proof (induction vs arbitrary: acc)
  case Nil
  then show ?case by auto
next
  case (Cons v vs)
  show ?case
  proof (cases "PersistentVolumeClaim v")
    case None
    with Cons show ?thesis by simp
  next
    case (Some claim)
    show ?thesis
    proof (cases "pvcLister pl ns (ClaimName claim)")
      case (Inl e0)
      with Some Cons.prems have "readWriteOncePodPVCsForPod_loop pl ns ign vs acc = Inr S"
        by (simp split: if_splits)
      from Cons.IH[OF this] Some Inl show ?thesis by auto
    next
      case (Inr pvc)
      show ?thesis
      proof (cases "ContainsAccessMode (AccessModes (PVC_Spec pvc)) ReadWriteOncePod")
        case True
        with Some Inr Cons.prems
        have "readWriteOncePodPVCsForPod_loop pl ns ign vs (finsert (PVC_Name pvc) acc) = Inr S"
          by simp
        from Cons.IH[OF this] Some Inr True show ?thesis
          by (auto simp: ContainsAccessMode_def)
      next
        case False
        with Some Inr Cons.prems
        have "readWriteOncePodPVCsForPod_loop pl ns ign vs acc = Inr S"
          by simp
        from Cons.IH[OF this] Some Inr False show ?thesis
          by (auto simp: ContainsAccessMode_def)
      qed
    qed
  qed
qed

lemma first_failure_exists:
  assumes "\<exists>n\<in>set names. \<not> P n"
  shows "\<exists>pre n post. names = pre @ n # post \<and> \<not> P n \<and> (\<forall>m\<in>set pre. P m)"
  using split_list_first_prop[OF assms] by blast

lemma rwop_loop_total:
  "(\<exists>S. readWriteOncePodPVCsForPod_loop pl ns ign vs acc = Inr S) \<longleftrightarrow>
     (\<forall>n\<in>set (claimNamesOf vs). \<forall>e. pvcLister pl ns n = Inl e \<longrightarrow> ign \<and> IsNotFound e)"
  (is "?L \<longleftrightarrow> ?R")
proof
  assume ?L
  then have no: "\<And>e. readWriteOncePodPVCsForPod_loop pl ns ign vs acc \<noteq> Inl e" by auto
  show ?R
  proof (rule ccontr)
    assume "\<not> ?R"
    then have "\<exists>n\<in>set (claimNamesOf vs).
                 \<not> (\<forall>e. pvcLister pl ns n = Inl e \<longrightarrow> ign \<and> IsNotFound e)" by blast
    from first_failure_exists[OF this]
    obtain pre n post where *: "claimNamesOf vs = pre @ n # post"
        "\<not> (\<forall>e. pvcLister pl ns n = Inl e \<longrightarrow> ign \<and> IsNotFound e)"
        "\<forall>m\<in>set pre. \<forall>e'. pvcLister pl ns m = Inl e' \<longrightarrow> ign \<and> IsNotFound e'"
      by blast
    from *(2) obtain e where "pvcLister pl ns n = Inl e" "\<not> (ign \<and> IsNotFound e)" by blast
    with *(1,3) have "readWriteOncePodPVCsForPod_loop pl ns ign vs acc = Inl e"
      unfolding rwop_loop_Inl_iff by blast
    with no show False by blast
  qed
next
  assume R: ?R
  show ?L
  proof (cases "readWriteOncePodPVCsForPod_loop pl ns ign vs acc")
    case (Inl e)
    then obtain pre n post where "claimNamesOf vs = pre @ n # post"
        "pvcLister pl ns n = Inl e" "\<not> (ign \<and> IsNotFound e)"
      unfolding rwop_loop_Inl_iff by blast
    with R show ?thesis by auto
  next
    case (Inr S)
    then show ?thesis by blast
  qed
qed

text \<open>
  Claim C6, as the code has it. In strict mode the resolver returns the error of the
  first lookup that fails, in the order of the pod's volumes, not-found included; in
  best-effort mode it passes over not-found and returns the first error of any other
  kind. It succeeds in strict mode exactly when no lookup fails, in best-effort mode
  exactly when every failure is a not-found. On success it returns exactly the names that
  the resolved claims carry, over the claims that the pod's claim-backed volumes refer to
  and whose resolved claim lists the \<^verbatim>\<open>ReadWriteOncePod\<close> access mode. \<^verbatim>\<open>PreFilter\<close>, the
  strict caller, turns a not-found error into the unschedulable-and-unresolvable status
  and any other error into an error status.
\<close>

theorem exclusive_claim_resolver:
  "(readWriteOncePodPVCsForPod pl pod False = Inl e \<longleftrightarrow>
      (\<exists>pre n post. referencedClaimNames pod = pre @ n # post
         \<and> pvcLister pl (Pod_Namespace pod) n = Inl e
         \<and> (\<forall>m\<in>set pre. \<forall>e'. pvcLister pl (Pod_Namespace pod) m \<noteq> Inl e')))
   \<and> (readWriteOncePodPVCsForPod pl pod True = Inl e \<longleftrightarrow>
      (\<exists>pre n post. referencedClaimNames pod = pre @ n # post
         \<and> pvcLister pl (Pod_Namespace pod) n = Inl e \<and> \<not> IsNotFound e
         \<and> (\<forall>m\<in>set pre. \<forall>e'. pvcLister pl (Pod_Namespace pod) m = Inl e' \<longrightarrow> IsNotFound e')))
   \<and> ((\<exists>S. readWriteOncePodPVCsForPod pl pod False = Inr S) \<longleftrightarrow>
        (\<forall>n\<in>set (referencedClaimNames pod). \<forall>e'. pvcLister pl (Pod_Namespace pod) n \<noteq> Inl e'))
   \<and> ((\<exists>S. readWriteOncePodPVCsForPod pl pod True = Inr S) \<longleftrightarrow>
        (\<forall>n\<in>set (referencedClaimNames pod). \<forall>e'.
            pvcLister pl (Pod_Namespace pod) n = Inl e' \<longrightarrow> IsNotFound e'))
   \<and> (\<forall>ignoreNotFoundError S. readWriteOncePodPVCsForPod pl pod ignoreNotFoundError = Inr S \<longrightarrow>
        fset S = {PVC_Name pvc | n pvc. n \<in> set (referencedClaimNames pod)
                    \<and> pvcLister pl (Pod_Namespace pod) n = Inr pvc
                    \<and> ReadWriteOncePod \<in> set (AccessModes (PVC_Spec pvc))})
   \<and> (readWriteOncePodPVCsForPod pl pod False = Inl e \<longrightarrow>
        PreFilter pl h cycleState pod =
          (h, cycleState, Some (if IsNotFound e
                                then NewStatus UnschedulableAndUnresolvable [Error_text e]
                                else AsStatus e)))"
proof (intro conjI allI impI)
  show "readWriteOncePodPVCsForPod pl pod False = Inl e \<longleftrightarrow>
        (\<exists>pre n post. referencedClaimNames pod = pre @ n # post
           \<and> pvcLister pl (Pod_Namespace pod) n = Inl e
           \<and> (\<forall>m\<in>set pre. \<forall>e'. pvcLister pl (Pod_Namespace pod) m \<noteq> Inl e'))"
    by (simp add: readWriteOncePodPVCsForPod_def referencedClaimNames_def rwop_loop_Inl_iff)
  show "readWriteOncePodPVCsForPod pl pod True = Inl e \<longleftrightarrow>
        (\<exists>pre n post. referencedClaimNames pod = pre @ n # post
           \<and> pvcLister pl (Pod_Namespace pod) n = Inl e \<and> \<not> IsNotFound e
           \<and> (\<forall>m\<in>set pre. \<forall>e'. pvcLister pl (Pod_Namespace pod) m = Inl e' \<longrightarrow> IsNotFound e'))"
    by (simp add: readWriteOncePodPVCsForPod_def referencedClaimNames_def rwop_loop_Inl_iff)
  show "(\<exists>S. readWriteOncePodPVCsForPod pl pod False = Inr S) \<longleftrightarrow>
          (\<forall>n\<in>set (referencedClaimNames pod). \<forall>e'. pvcLister pl (Pod_Namespace pod) n \<noteq> Inl e')"
    by (simp add: readWriteOncePodPVCsForPod_def referencedClaimNames_def rwop_loop_total)
  show "(\<exists>S. readWriteOncePodPVCsForPod pl pod True = Inr S) \<longleftrightarrow>
          (\<forall>n\<in>set (referencedClaimNames pod). \<forall>e'.
              pvcLister pl (Pod_Namespace pod) n = Inl e' \<longrightarrow> IsNotFound e')"
    by (simp add: readWriteOncePodPVCsForPod_def referencedClaimNames_def rwop_loop_total)
next
  fix ignoreNotFoundError S
  assume "readWriteOncePodPVCsForPod pl pod ignoreNotFoundError = Inr S"
  then have "fset S = fset {||} \<union> {PVC_Name pvc | n pvc. n \<in> set (claimNamesOf (Volumes (Spec pod)))
                \<and> pvcLister pl (Pod_Namespace pod) n = Inr pvc
                \<and> ReadWriteOncePod \<in> set (AccessModes (PVC_Spec pvc))}"
    unfolding readWriteOncePodPVCsForPod_def by (rule rwop_loop_Inr)
  then show "fset S = {PVC_Name pvc | n pvc. n \<in> set (referencedClaimNames pod)
                \<and> pvcLister pl (Pod_Namespace pod) n = Inr pvc
                \<and> ReadWriteOncePod \<in> set (AccessModes (PVC_Spec pvc))}"
    by (simp add: referencedClaimNames_def)
next
  assume "readWriteOncePodPVCsForPod pl pod False = Inl e"
  then show "PreFilter pl h cycleState pod =
            (h, cycleState, Some (if IsNotFound e
                                  then NewStatus UnschedulableAndUnresolvable [Error_text e]
                                  else AsStatus e))"
    by (rule PreFilter_Inl)
qed

theorem exclusive_claim_resolver_witness:
  "readWriteOncePodPVCsForPod
       (pluginWith [((''ns'', ''c1''), Inr [ReadWriteOncePod]),
                    ((''ns'', ''c2''), Inr [''ReadWriteOnce''])] [])
       (podWith ''ns'' [claimVolume ''c1'', gceVolume ''d'' False, claimVolume ''c2'',
                        claimVolume ''c3'']) False
     = Inl (ErrClaimNotFound ''c3 not found'')
   \<and> readWriteOncePodPVCsForPod
       (pluginWith [((''ns'', ''c1''), Inr [ReadWriteOncePod]),
                    ((''ns'', ''c2''), Inr [''ReadWriteOnce''])] [])
       (podWith ''ns'' [claimVolume ''c1'', gceVolume ''d'' False, claimVolume ''c2'',
                        claimVolume ''c3'']) True
     = Inr {|''c1''|}
   \<and> PreFilter
       (pluginWith [((''ns'', ''c1''), Inr [ReadWriteOncePod]),
                    ((''ns'', ''c2''), Inr [''ReadWriteOnce''])] [])
       emptyHeap Map.empty
       (podWith ''ns'' [claimVolume ''c1'', gceVolume ''d'' False, claimVolume ''c2'',
                        claimVolume ''c3''])
     = (emptyHeap, Map.empty, Some (NewStatus UnschedulableAndUnresolvable [''c3 not found'']))"
  using exclusive_claim_resolver
    [of "pluginWith [((''ns'', ''c1''), Inr [ReadWriteOncePod]),
                     ((''ns'', ''c2''), Inr [''ReadWriteOnce''])] []"
        "podWith ''ns'' [claimVolume ''c1'', gceVolume ''d'' False, claimVolume ''c2'',
                         claimVolume ''c3'']"
        "ErrClaimNotFound ''c3 not found''" emptyHeap Map.empty]
  by (simp add: PreFilter_def readWriteOncePodPVCsForPod_def pluginWith_def claimStore_def
      podWith_def claimVolume_def gceVolume_def noVolume_def ContainsAccessMode_def
      ReadWriteOncePod_def)

text \<open>
  Claim C6 takes the result to be a set of names that the pod's volumes refer to. The
  resolver enters the name that the claim found carries: a store that answers the lookup
  of \<open>alias\<close> with a claim named \<open>real\<close> gives the set \<open>{real}\<close> for a pod that refers
  to \<open>alias\<close> only.
\<close>

theorem exclusive_claim_resolver_counterexample:
  "readWriteOncePodPVCsForPod
       \<lparr>pvcLister = objectStore [((''ns'', ''alias''),
                       \<lparr>PVC_Namespace = ''ns'', PVC_Name = ''real'',
                        PVC_Spec = \<lparr>AccessModes = [ReadWriteOncePod]\<rparr>\<rparr>)],
        sharedLister = (\<lambda>key. False)\<rparr>
       (podWith ''ns'' [claimVolume ''alias'']) False
     = Inr {|''real''|}
   \<and> referencedClaimNames (podWith ''ns'' [claimVolume ''alias'']) = [''alias'']"
  by (simp add: readWriteOncePodPVCsForPod_def objectStore_def podWith_def claimVolume_def
      noVolume_def ContainsAccessMode_def referencedClaimNames_def)

section \<open>Re-queueing after a pod is deleted\<close>

lemma fBex_inter: "fBex A (\<lambda>x. x |\<in>| B) \<longleftrightarrow> A |\<inter>| B \<noteq> {||}"
  by auto

text \<open>
  Claim C7, as the code has it. For a blocked pod \<open>P\<close> and a deleted pod \<open>D\<close>: the hint
  is skip when the namespaces differ. Otherwise \<open>P\<close>'s exclusive claims are resolved
  strictly: a not-found claim gives skip, any other lookup error gives requeue together
  with the error. Otherwise \<open>D\<close>'s exclusive claims are resolved best-effort, and a
  lookup error there gives requeue together with the error. Otherwise the hint is
  requeue when the two sets of claim names have a name in common, or when some
  conflict-relevant volume of \<open>P\<close> conflicts, by the conflict matcher, with the volumes
  of \<open>D\<close> placed alone on a synthetic node; and it is skip when neither holds.
\<close>

theorem pod_deleted_hint:
  "(Pod_Namespace deletedPod \<noteq> Pod_Namespace pod \<longrightarrow>
      isSchedulableAfterPodDeleted pl pod (Some (PodObject deletedPod)) None
        = Inr (QueueSkip, None))
   \<and> (Pod_Namespace deletedPod = Pod_Namespace pod \<longrightarrow>
        (\<forall>err. readWriteOncePodPVCsForPod pl pod False = Inl err \<longrightarrow>
           isSchedulableAfterPodDeleted pl pod (Some (PodObject deletedPod)) None
             = Inr (if IsNotFound err then (QueueSkip, None) else (Queue, Some err)))
      \<and> (\<forall>newPodPvcs. readWriteOncePodPVCsForPod pl pod False = Inr newPodPvcs \<longrightarrow>
           (\<forall>err. readWriteOncePodPVCsForPod pl deletedPod True = Inl err \<longrightarrow>
              isSchedulableAfterPodDeleted pl pod (Some (PodObject deletedPod)) None
                = Inr (Queue, Some err))
         \<and> (\<forall>deletedPodPvcs. readWriteOncePodPVCsForPod pl deletedPod True = Inr deletedPodPvcs \<longrightarrow>
              isSchedulableAfterPodDeleted pl pod (Some (PodObject deletedPod)) None
                = Inr (if deletedPodPvcs |\<inter>| newPodPvcs \<noteq> {||}
                          \<or> (\<exists>v\<in>set (Volumes (Spec pod)). needsRestrictionsCheck v
                                \<and> isVolumeConflict v deletedPod)
                       then (Queue, None) else (QueueSkip, None)))))"
  by (simp add: isSchedulableAfterPodDeleted_def As_Pod_def fBex_inter
      satisfyVolumeConflicts_iff NewNodeInfo_def) blast

theorem pod_deleted_hint_witness:
  "isSchedulableAfterPodDeleted
       (pluginWith [((''ns'', ''c1''), Inr [ReadWriteOncePod])] [])
       (podWith ''ns'' [claimVolume ''c1''])
       (Some (PodObject (podWith ''ns'' [claimVolume ''c1'']))) None = Inr (Queue, None)
   \<and> isSchedulableAfterPodDeleted
       (pluginWith [((''ns'', ''c1''), Inr [ReadWriteOncePod])] [])
       (podWith ''ns'' [claimVolume ''c1''])
       (Some (PodObject (podWith ''other'' [claimVolume ''c1'']))) None = Inr (QueueSkip, None)
   \<and> isSchedulableAfterPodDeleted (pluginWith [] [])
       (podWith ''ns'' [claimVolume ''c1''])
       (Some (PodObject (podWith ''ns'' [claimVolume ''c1'']))) None = Inr (QueueSkip, None)
   \<and> isSchedulableAfterPodDeleted
       (pluginWith [((''ns'', ''c1''), Inl (ErrClaimLookup ''timeout''))] [])
       (podWith ''ns'' [claimVolume ''c1''])
       (Some (PodObject (podWith ''ns'' []))) None = Inr (Queue, Some (ErrClaimLookup ''timeout''))
   \<and> isSchedulableAfterPodDeleted (pluginWith [] [])
       (podWith ''ns'' [gceVolume ''a'' False])
       (Some (PodObject (podWith ''ns'' [gceVolume ''a'' True]))) None = Inr (Queue, None)"
  using
    pod_deleted_hint [of "podWith ''ns'' [claimVolume ''c1'']" "podWith ''ns'' [claimVolume ''c1'']"
       "pluginWith [((''ns'', ''c1''), Inr [ReadWriteOncePod])] []"]
    pod_deleted_hint [of "podWith ''other'' [claimVolume ''c1'']" "podWith ''ns'' [claimVolume ''c1'']"
       "pluginWith [((''ns'', ''c1''), Inr [ReadWriteOncePod])] []"]
    pod_deleted_hint [of "podWith ''ns'' [claimVolume ''c1'']" "podWith ''ns'' [claimVolume ''c1'']"
       "pluginWith [] []"]
    pod_deleted_hint [of "podWith ''ns'' []" "podWith ''ns'' [claimVolume ''c1'']"
       "pluginWith [((''ns'', ''c1''), Inl (ErrClaimLookup ''timeout''))] []"]
    pod_deleted_hint [of "podWith ''ns'' [gceVolume ''a'' True]" "podWith ''ns'' [gceVolume ''a'' False]"
       "pluginWith [] []"]
  by (simp add: readWriteOncePodPVCsForPod_def pluginWith_def claimStore_def
      podWith_def gceVolume_def claimVolume_def noVolume_def ContainsAccessMode_def
      needsRestrictionsCheck_def isVolumeConflict_def gceConflict_def awsConflict_def
      iscsiConflict_def rbdConflict_def)

text \<open>
  Claim C7 asks for requeue when the simulated check finds no conflict, and for skip
  otherwise. The code does the opposite: with a GCE disk \<open>a\<close> in \<open>P\<close> and a GCE disk
  \<open>b\<close> in \<open>D\<close> the check finds no conflict and the hint is skip; with the disk \<open>a\<close>
  in both the check finds the conflict and the hint is requeue.
\<close>

theorem pod_deleted_hint_counterexample:
  "isSchedulableAfterPodDeleted (pluginWith [] []) (podWith ''ns'' [gceVolume ''a'' False])
     (Some (PodObject (podWith ''ns'' [gceVolume ''b'' False]))) None = Inr (QueueSkip, None)
   \<and> satisfyVolumeConflicts (podWith ''ns'' [gceVolume ''a'' False])
        (NewNodeInfo [podWith ''ns'' [gceVolume ''b'' False]])
   \<and> isSchedulableAfterPodDeleted (pluginWith [] []) (podWith ''ns'' [gceVolume ''a'' False])
     (Some (PodObject (podWith ''ns'' [gceVolume ''a'' False]))) None = Inr (Queue, None)
   \<and> \<not> satisfyVolumeConflicts (podWith ''ns'' [gceVolume ''a'' False])
        (NewNodeInfo [podWith ''ns'' [gceVolume ''a'' False]])"
  by (simp add: isSchedulableAfterPodDeleted_def As_Pod_def readWriteOncePodPVCsForPod_def
      podWith_def gceVolume_def noVolume_def satisfyVolumeConflicts_def NewNodeInfo_def
      needsRestrictionsCheck_def isVolumeConflict_def gceConflict_def awsConflict_def
      iscsiConflict_def rbdConflict_def)

section \<open>Re-queueing after a claim is created or updated\<close>

lemma claimChange_loop_Inl_iff:
  "claimChange_loop pl ns vs acc = Inl r \<longleftrightarrow>
     (\<exists>pre n post. claimNamesOf vs = pre @ n # post
        \<and> (\<exists>e. pvcLister pl ns n = Inl e
              \<and> r = (if IsNotFound e then (QueueSkip, None) else (Queue, Some e)))
        \<and> (\<forall>m\<in>set pre. \<forall>e'. pvcLister pl ns m \<noteq> Inl e'))"
proof (induction vs arbitrary: acc)
  case Nil
  show ?case by simp
next
  case (Cons v vs)
  let ?Q = "\<lambda>n. \<exists>e. pvcLister pl ns n = Inl e
              \<and> r = (if IsNotFound e then (QueueSkip, None) else (Queue, Some e))"
  let ?P = "\<lambda>m. \<forall>e'. pvcLister pl ns m \<noteq> Inl e'"
  let ?R = "\<lambda>names. \<exists>pre n post. names = pre @ n # post \<and> ?Q n \<and> (\<forall>m\<in>set pre. ?P m)"
  have IH: "claimChange_loop pl ns vs acc' = Inl r \<longleftrightarrow> ?R (claimNamesOf vs)" for acc'
    by (rule Cons.IH)
  show ?case
  proof (cases "PersistentVolumeClaim v")
    case None
    then show ?thesis by (simp add: Cons.IH)
  next
    case (Some claim)
    have step: "?R (ClaimName claim # claimNamesOf vs)
                  \<longleftrightarrow> ?Q (ClaimName claim) \<or> (?P (ClaimName claim) \<and> ?R (claimNamesOf vs))"
      by (rule first_failure_Cons)
    have names: "claimNamesOf (v # vs) = ClaimName claim # claimNamesOf vs"
      using Some by simp
    show ?thesis
    proof (cases "pvcLister pl ns (ClaimName claim)")
      case (Inl e0)
      have eq: "claimChange_loop pl ns (v # vs) acc
                  = Inl (if IsNotFound e0 then (QueueSkip, None) else (Queue, Some e0))"
        using Some Inl by simp
      have "?Q (ClaimName claim)
              \<longleftrightarrow> r = (if IsNotFound e0 then (QueueSkip, None) else (Queue, Some e0))"
           "\<not> ?P (ClaimName claim)"
        using Inl by auto
      with step have "?R (ClaimName claim # claimNamesOf vs)
              \<longleftrightarrow> r = (if IsNotFound e0 then (QueueSkip, None) else (Queue, Some e0))"
        by blast
      then show ?thesis
        unfolding names eq by auto
    next
      case (Inr pvc)
      have eq: "claimChange_loop pl ns (v # vs) acc
                   = claimChange_loop pl ns vs (finsert (PVC_Name pvc) acc)"
        using Some Inr by simp
      have "\<not> ?Q (ClaimName claim)" "?P (ClaimName claim)"
        using Inr by auto
      with step have "?R (ClaimName claim # claimNamesOf vs) \<longleftrightarrow> ?R (claimNamesOf vs)"
        by blast
      with IH[of "finsert (PVC_Name pvc) acc"] show ?thesis
        unfolding names eq by blast
    qed
  qed
qed

lemma claimChange_loop_Inr:
  "claimChange_loop pl ns vs acc = Inr S \<Longrightarrow>
     fset S = fset acc \<union> {PVC_Name pvc | n pvc. n \<in> set (claimNamesOf vs)
                \<and> pvcLister pl ns n = Inr pvc}
     \<and> (\<forall>n\<in>set (claimNamesOf vs). \<forall>e. pvcLister pl ns n \<noteq> Inl e)"
proof (induction vs arbitrary: acc)
  case Nil
  then show ?case by auto
next
  case (Cons v vs)
  show ?case
  proof (cases "PersistentVolumeClaim v")
    case None
    with Cons show ?thesis by simp
  next
    case (Some claim)
    show ?thesis
    proof (cases "pvcLister pl ns (ClaimName claim)")
      case (Inl e0)
      with Some Cons.prems show ?thesis by (simp split: if_splits)
    next
      case (Inr pvc)
      with Some Cons.prems
      have "claimChange_loop pl ns vs (finsert (PVC_Name pvc) acc) = Inr S" by simp
      from Cons.IH[OF this] Some Inr show ?thesis by auto
    qed
  qed
qed

lemma claimChange_loop_cases:
  "(\<exists>S. claimChange_loop pl ns vs acc = Inr S)
   \<or> claimChange_loop pl ns vs acc = Inl (QueueSkip, None)
   \<or> (\<exists>e. claimChange_loop pl ns vs acc = Inl (Queue, Some e))"
  by (induction vs arbitrary: acc) (auto split: option.splits sum.splits)

lemma claimChange_loop_total:
  "(\<exists>S. claimChange_loop pl ns vs acc = Inr S) \<longleftrightarrow>
     (\<forall>n\<in>set (claimNamesOf vs). \<forall>e. pvcLister pl ns n \<noteq> Inl e)"
  (is "?L \<longleftrightarrow> ?R")
proof
  assume ?L
  then show ?R using claimChange_loop_Inr by blast
next
  assume R: ?R
  show ?L
  proof (cases "claimChange_loop pl ns vs acc")
    case (Inl r)
    then obtain pre n post e where "claimNamesOf vs = pre @ n # post" "pvcLister pl ns n = Inl e"
      unfolding claimChange_loop_Inl_iff by blast
    with R show ?thesis by auto
  next
    case (Inr S)
    then show ?thesis by blast
  qed
qed

lemma claimChange_created:
  "isSchedulableAfterPersistentVolumeClaimChange pl pod None
       (Some (PersistentVolumeClaimObject newClaim)) =
     (if PVC_Namespace newClaim \<noteq> Pod_Namespace pod then Inr (QueueSkip, None)
      else case claimChange_loop pl (Pod_Namespace pod) (Volumes (Spec pod)) {||} of
             Inl early \<Rightarrow> Inr early
           | Inr pvcs \<Rightarrow> if PVC_Name newClaim |\<in>| pvcs then Inr (Queue, None)
                         else Inr (QueueSkip, None))"
  by (simp add: isSchedulableAfterPersistentVolumeClaimChange_def As_PersistentVolumeClaim_def
      split: sum.splits)

lemma claimChange_updated:
  "isSchedulableAfterPersistentVolumeClaimChange pl pod
       (Some (PersistentVolumeClaimObject oldClaim))
       (Some (PersistentVolumeClaimObject newClaim)) = Inr (QueueSkip, None)"
  by (simp add: isSchedulableAfterPersistentVolumeClaimChange_def As_PersistentVolumeClaim_def)

text \<open>
  Claim C8, as the code has it. An update of a claim always gives skip. A creation gives
  requeue without error exactly when the new claim is in the pod's namespace, every claim
  that the pod's claim-backed volumes refer to is resolved by the lister, and the new
  claim's name is the name that one of those resolved claims carries. It gives requeue
  together with an error exactly when the new claim is in the pod's namespace and the
  first lookup to fail, in the order of the volumes, fails with that error and the error
  is not a not-found. In every other case a creation gives skip.
\<close>

theorem claim_change_hint:
  "isSchedulableAfterPersistentVolumeClaimChange pl pod
       (Some (PersistentVolumeClaimObject oldClaim))
       (Some (PersistentVolumeClaimObject newClaim)) = Inr (QueueSkip, None)
   \<and> (isSchedulableAfterPersistentVolumeClaimChange pl pod None
         (Some (PersistentVolumeClaimObject newClaim)) = Inr (Queue, None)
        \<longleftrightarrow> PVC_Namespace newClaim = Pod_Namespace pod
            \<and> (\<forall>n\<in>set (referencedClaimNames pod). \<forall>e. pvcLister pl (Pod_Namespace pod) n \<noteq> Inl e)
            \<and> (\<exists>n\<in>set (referencedClaimNames pod). \<exists>pvc.
                  pvcLister pl (Pod_Namespace pod) n = Inr pvc
                  \<and> PVC_Name pvc = PVC_Name newClaim))
   \<and> (isSchedulableAfterPersistentVolumeClaimChange pl pod None
         (Some (PersistentVolumeClaimObject newClaim)) = Inr (Queue, Some err)
        \<longleftrightarrow> PVC_Namespace newClaim = Pod_Namespace pod \<and> \<not> IsNotFound err
            \<and> (\<exists>pre n post. referencedClaimNames pod = pre @ n # post
                  \<and> pvcLister pl (Pod_Namespace pod) n = Inl err
                  \<and> (\<forall>m\<in>set pre. \<forall>e'. pvcLister pl (Pod_Namespace pod) m \<noteq> Inl e')))
   \<and> (isSchedulableAfterPersistentVolumeClaimChange pl pod None
         (Some (PersistentVolumeClaimObject newClaim)) = Inr (QueueSkip, None)
       \<or> isSchedulableAfterPersistentVolumeClaimChange pl pod None
         (Some (PersistentVolumeClaimObject newClaim)) = Inr (Queue, None)
       \<or> (\<exists>e. isSchedulableAfterPersistentVolumeClaimChange pl pod None
         (Some (PersistentVolumeClaimObject newClaim)) = Inr (Queue, Some e)))"
proof -
  let ?ns = "Pod_Namespace pod"
  let ?loop = "claimChange_loop pl ?ns (Volumes (Spec pod)) {||}"
  let ?r = "isSchedulableAfterPersistentVolumeClaimChange pl pod None
              (Some (PersistentVolumeClaimObject newClaim))"
  let ?carried = "\<exists>n\<in>set (referencedClaimNames pod). \<exists>pvc.
                    pvcLister pl ?ns n = Inr pvc \<and> PVC_Name pvc = PVC_Name newClaim"
  note r = claimChange_created[of pl pod newClaim]
  have names: "referencedClaimNames pod = claimNamesOf (Volumes (Spec pod))"
    by (simp add: referencedClaimNames_def)
  have has: "PVC_Name newClaim \<in> fset S \<longleftrightarrow> ?carried"
    if "?loop = Inr S" for S
  proof -
    from claimChange_loop_Inr[OF that]
    have S: "fset S = {PVC_Name pvc | n pvc. n \<in> set (referencedClaimNames pod)
                         \<and> pvcLister pl ?ns n = Inr pvc}"
      by (simp add: names)
    show ?thesis unfolding S by (simp add: Bex_def) metis
  qed
  have total: "(\<exists>S. ?loop = Inr S)
                 \<longleftrightarrow> (\<forall>n\<in>set (referencedClaimNames pod). \<forall>e. pvcLister pl ?ns n \<noteq> Inl e)"
    unfolding names by (rule claimChange_loop_total)
  have c2: "?r = Inr (Queue, None)
          \<longleftrightarrow> PVC_Namespace newClaim = ?ns
              \<and> (\<forall>n\<in>set (referencedClaimNames pod). \<forall>e. pvcLister pl ?ns n \<noteq> Inl e)
              \<and> ?carried"
  proof (cases "PVC_Namespace newClaim = ?ns")
    case False
    then show ?thesis by (simp add: r)
  next
    case True
    show ?thesis
    proof (cases ?loop)
      case (Inl early)
      then have "\<not> (\<exists>S. ?loop = Inr S)" by simp
      with total have nt: "\<not> (\<forall>n\<in>set (referencedClaimNames pod). \<forall>e. pvcLister pl ?ns n \<noteq> Inl e)"
        by blast
      from Inl have "early = (QueueSkip, None) \<or> (\<exists>e. early = (Queue, Some e))"
        using claimChange_loop_cases[of pl ?ns "Volumes (Spec pod)" "{||}"] by auto
      then have "?r \<noteq> Inr (Queue, None)"
        using True Inl by (auto simp: r)
      with nt show ?thesis by blast
    next
      case (Inr S)
      then have "\<forall>n\<in>set (referencedClaimNames pod). \<forall>e. pvcLister pl ?ns n \<noteq> Inl e"
        using total by blast
      moreover have "?r = Inr (Queue, None) \<longleftrightarrow> PVC_Name newClaim \<in> fset S"
        using True Inr by (simp add: r)
      ultimately show ?thesis
        using True has[OF Inr] by blast
    qed
  qed
  have c3: "?r = Inr (Queue, Some err)
          \<longleftrightarrow> PVC_Namespace newClaim = ?ns \<and> \<not> IsNotFound err
              \<and> (\<exists>pre n post. referencedClaimNames pod = pre @ n # post
                    \<and> pvcLister pl ?ns n = Inl err
                    \<and> (\<forall>m\<in>set pre. \<forall>e'. pvcLister pl ?ns m \<noteq> Inl e'))"
  proof (cases "PVC_Namespace newClaim = ?ns")
    case False
    then show ?thesis by (simp add: r)
  next
    case True
    have "?r = Inr (Queue, Some err) \<longleftrightarrow> ?loop = Inl (Queue, Some err)"
      using True by (auto simp: r split: sum.splits)
    also have "\<dots> \<longleftrightarrow> (\<exists>pre n post. referencedClaimNames pod = pre @ n # post
          \<and> (\<exists>e. pvcLister pl ?ns n = Inl e
                \<and> (Queue, Some err) = (if IsNotFound e then (QueueSkip, None) else (Queue, Some e)))
          \<and> (\<forall>m\<in>set pre. \<forall>e'. pvcLister pl ?ns m \<noteq> Inl e'))"
      unfolding names by (rule claimChange_loop_Inl_iff)
    also have "\<dots> \<longleftrightarrow> \<not> IsNotFound err
              \<and> (\<exists>pre n post. referencedClaimNames pod = pre @ n # post
                    \<and> pvcLister pl ?ns n = Inl err
                    \<and> (\<forall>m\<in>set pre. \<forall>e'. pvcLister pl ?ns m \<noteq> Inl e'))"
      by (auto split: if_splits)
    finally show ?thesis using True by simp
  qed
  have c4: "?r = Inr (QueueSkip, None) \<or> ?r = Inr (Queue, None) \<or> (\<exists>e. ?r = Inr (Queue, Some e))"
    using claimChange_loop_cases[of pl ?ns "Volumes (Spec pod)" "{||}"]
    by (auto simp: r split: sum.splits)
  from claimChange_updated[of pl pod oldClaim newClaim] c2 c3 c4 show ?thesis by blast
qed

theorem claim_change_hint_witness:
  "isSchedulableAfterPersistentVolumeClaimChange
       (pluginWith [((''ns'', ''c2''), Inr [ReadWriteOncePod])] [])
       (podWith ''ns'' [claimVolume ''c2'']) None
       (Some (PersistentVolumeClaimObject (claimNamed ''ns'' ''c2''))) = Inr (Queue, None)
   \<and> isSchedulableAfterPersistentVolumeClaimChange
       (pluginWith [((''ns'', ''c2''), Inr [ReadWriteOncePod])] [])
       (podWith ''ns'' [claimVolume ''c2''])
       (Some (PersistentVolumeClaimObject (claimNamed ''ns'' ''c2'')))
       (Some (PersistentVolumeClaimObject (claimNamed ''ns'' ''c2''))) = Inr (QueueSkip, None)
   \<and> isSchedulableAfterPersistentVolumeClaimChange
       (pluginWith [((''ns'', ''c2''), Inr [ReadWriteOncePod])] [])
       (podWith ''ns'' [claimVolume ''c2'']) None
       (Some (PersistentVolumeClaimObject (claimNamed ''other'' ''c2''))) = Inr (QueueSkip, None)
   \<and> isSchedulableAfterPersistentVolumeClaimChange
       (pluginWith [((''ns'', ''c2''), Inr [ReadWriteOncePod])] [])
       (podWith ''ns'' [claimVolume ''c2'']) None
       (Some (PersistentVolumeClaimObject (claimNamed ''ns'' ''c9''))) = Inr (QueueSkip, None)
   \<and> isSchedulableAfterPersistentVolumeClaimChange
       (pluginWith [((''ns'', ''c2''), Inl (ErrClaimLookup ''timeout''))] [])
       (podWith ''ns'' [claimVolume ''c2'']) None
       (Some (PersistentVolumeClaimObject (claimNamed ''ns'' ''c9'')))
       = Inr (Queue, Some (ErrClaimLookup ''timeout''))"
  using
    claim_change_hint [of "pluginWith [((''ns'', ''c2''), Inr [ReadWriteOncePod])] []"
       "podWith ''ns'' [claimVolume ''c2'']" "claimNamed ''ns'' ''c2''" "claimNamed ''ns'' ''c2''"]
    claim_change_hint [of "pluginWith [((''ns'', ''c2''), Inl (ErrClaimLookup ''timeout''))] []"
       "podWith ''ns'' [claimVolume ''c2'']" "claimNamed ''ns'' ''c9''" "claimNamed ''ns'' ''c9''"
       "ErrClaimLookup ''timeout''"]
  by (simp add: isSchedulableAfterPersistentVolumeClaimChange_def As_PersistentVolumeClaim_def
      pluginWith_def claimStore_def podWith_def claimVolume_def noVolume_def claimNamed_def)

text \<open>
  Claim C8 asks for requeue whenever a claim that the pod refers to is created in the
  pod's namespace. A pod that refers to \<open>c2\<close> and \<open>c3\<close>, of which only \<open>c2\<close>
  exists, gets skip on the creation of \<open>c2\<close>. And the name that the code tests is
  the one the resolved claims carry: with a store that answers the lookup of \<open>alias\<close>
  with a claim named \<open>real\<close>, a pod that refers to \<open>alias\<close> gets skip on the creation
  of a claim named \<open>alias\<close>.
\<close>

theorem claim_change_hint_counterexample:
  "isSchedulableAfterPersistentVolumeClaimChange
       (pluginWith [((''ns'', ''c2''), Inr [ReadWriteOncePod])] [])
       (podWith ''ns'' [claimVolume ''c2'', claimVolume ''c3'']) None
       (Some (PersistentVolumeClaimObject (claimNamed ''ns'' ''c2''))) = Inr (QueueSkip, None)
   \<and> PVC_Namespace (claimNamed ''ns'' ''c2'')
       = Pod_Namespace (podWith ''ns'' [claimVolume ''c2'', claimVolume ''c3''])
   \<and> PVC_Name (claimNamed ''ns'' ''c2'')
       \<in> set (referencedClaimNames (podWith ''ns'' [claimVolume ''c2'', claimVolume ''c3'']))
   \<and> isSchedulableAfterPersistentVolumeClaimChange
       \<lparr>pvcLister = objectStore [((''ns'', ''alias''), claimNamed ''ns'' ''real'')],
        sharedLister = (\<lambda>key. False)\<rparr>
       (podWith ''ns'' [claimVolume ''alias'']) None
       (Some (PersistentVolumeClaimObject (claimNamed ''ns'' ''alias''))) = Inr (QueueSkip, None)
   \<and> PVC_Name (claimNamed ''ns'' ''alias'')
       \<in> set (referencedClaimNames (podWith ''ns'' [claimVolume ''alias'']))"
  by (simp add: isSchedulableAfterPersistentVolumeClaimChange_def As_PersistentVolumeClaim_def
      pluginWith_def claimStore_def objectStore_def podWith_def claimVolume_def noVolume_def
      claimNamed_def referencedClaimNames_def)

text \<open>
  Claim C10, as the code has it. On the creation of a claim in the pod's namespace: when
  the first lookup to fail, in the order of the pod's volumes, is a not-found, the hint is
  skip without error, whatever the name of the new claim, also when it is one of the
  names the pod refers to. Requeue without error is given only when every claim that the
  pod refers to is resolved by the lister. When the first lookup to fail fails with an
  error that is not a not-found, the hint is requeue together with that error.
\<close>

theorem claim_created_while_claim_missing:
  "(PVC_Namespace newClaim = Pod_Namespace pod
      \<and> referencedClaimNames pod = pre @ n # post
      \<and> pvcLister pl (Pod_Namespace pod) n = Inl e \<and> IsNotFound e
      \<and> (\<forall>m\<in>set pre. \<forall>e'. pvcLister pl (Pod_Namespace pod) m \<noteq> Inl e')
    \<longrightarrow> isSchedulableAfterPersistentVolumeClaimChange pl pod None
          (Some (PersistentVolumeClaimObject newClaim)) = Inr (QueueSkip, None))
   \<and> (isSchedulableAfterPersistentVolumeClaimChange pl pod None
          (Some (PersistentVolumeClaimObject newClaim)) = Inr (Queue, None)
    \<longrightarrow> (\<forall>n\<in>set (referencedClaimNames pod). \<exists>pvc. pvcLister pl (Pod_Namespace pod) n = Inr pvc))
   \<and> (PVC_Namespace newClaim = Pod_Namespace pod
      \<and> referencedClaimNames pod = pre @ n # post
      \<and> pvcLister pl (Pod_Namespace pod) n = Inl e \<and> \<not> IsNotFound e
      \<and> (\<forall>m\<in>set pre. \<forall>e'. pvcLister pl (Pod_Namespace pod) m \<noteq> Inl e')
    \<longrightarrow> isSchedulableAfterPersistentVolumeClaimChange pl pod None
          (Some (PersistentVolumeClaimObject newClaim)) = Inr (Queue, Some e))"
proof (intro conjI impI)
  let ?ns = "Pod_Namespace pod"
  let ?loop = "claimChange_loop pl ?ns (Volumes (Spec pod)) {||}"
  assume a: "PVC_Namespace newClaim = Pod_Namespace pod
      \<and> referencedClaimNames pod = pre @ n # post
      \<and> pvcLister pl (Pod_Namespace pod) n = Inl e \<and> IsNotFound e
      \<and> (\<forall>m\<in>set pre. \<forall>e'. pvcLister pl (Pod_Namespace pod) m \<noteq> Inl e')"
  then have ns: "PVC_Namespace newClaim = ?ns"
    and names: "claimNamesOf (Volumes (Spec pod)) = pre @ n # post"
    and fails: "pvcLister pl ?ns n = Inl e" and nf: "IsNotFound e"
    and before: "\<forall>m\<in>set pre. \<forall>e'. pvcLister pl ?ns m \<noteq> Inl e'"
    unfolding referencedClaimNames_def by blast+
  from fails nf have "\<exists>e. pvcLister pl ?ns n = Inl e
              \<and> (QueueSkip, None) = (if IsNotFound e then (QueueSkip, None) else (Queue, Some e))"
    by (intro exI[of _ e]) simp
  with names before
  have "\<exists>pre n post. claimNamesOf (Volumes (Spec pod)) = pre @ n # post
        \<and> (\<exists>e. pvcLister pl ?ns n = Inl e
              \<and> (QueueSkip, None) = (if IsNotFound e then (QueueSkip, None) else (Queue, Some e)))
        \<and> (\<forall>m\<in>set pre. \<forall>e'. pvcLister pl ?ns m \<noteq> Inl e')"
    by blast
  then have "?loop = Inl (QueueSkip, None)"
    unfolding claimChange_loop_Inl_iff .
  then show "isSchedulableAfterPersistentVolumeClaimChange pl pod None
          (Some (PersistentVolumeClaimObject newClaim)) = Inr (QueueSkip, None)"
    unfolding claimChange_created using ns by simp
next
  let ?ns = "Pod_Namespace pod"
  let ?loop = "claimChange_loop pl ?ns (Volumes (Spec pod)) {||}"
  assume q: "isSchedulableAfterPersistentVolumeClaimChange pl pod None
          (Some (PersistentVolumeClaimObject newClaim)) = Inr (Queue, None)"
  have "\<exists>S. ?loop = Inr S"
  proof (cases ?loop)
    case (Inl early)
    then have "early = (QueueSkip, None) \<or> (\<exists>e. early = (Queue, Some e))"
      using claimChange_loop_cases[of pl ?ns "Volumes (Spec pod)" "{||}"] by auto
    moreover from q have "early = (Queue, None)"
      unfolding claimChange_created Inl by (simp split: if_splits)
    ultimately show ?thesis
      by simp
  next
    case (Inr S)
    then show ?thesis by blast
  qed
  then have ok: "\<forall>n\<in>set (claimNamesOf (Volumes (Spec pod))). \<forall>e. pvcLister pl ?ns n \<noteq> Inl e"
    unfolding claimChange_loop_total .
  show "\<forall>n\<in>set (referencedClaimNames pod). \<exists>pvc. pvcLister pl ?ns n = Inr pvc"
    unfolding referencedClaimNames_def
  proof
    fix n assume "n \<in> set (claimNamesOf (Volumes (Spec pod)))"
    with ok have "\<forall>e. pvcLister pl ?ns n \<noteq> Inl e" by blast
    then show "\<exists>pvc. pvcLister pl ?ns n = Inr pvc"
      by (cases "pvcLister pl ?ns n") auto
  qed
next
  let ?ns = "Pod_Namespace pod"
  let ?loop = "claimChange_loop pl ?ns (Volumes (Spec pod)) {||}"
  assume a: "PVC_Namespace newClaim = Pod_Namespace pod
      \<and> referencedClaimNames pod = pre @ n # post
      \<and> pvcLister pl (Pod_Namespace pod) n = Inl e \<and> \<not> IsNotFound e
      \<and> (\<forall>m\<in>set pre. \<forall>e'. pvcLister pl (Pod_Namespace pod) m \<noteq> Inl e')"
  then have ns: "PVC_Namespace newClaim = ?ns"
    and names: "claimNamesOf (Volumes (Spec pod)) = pre @ n # post"
    and fails: "pvcLister pl ?ns n = Inl e" and nf: "\<not> IsNotFound e"
    and before: "\<forall>m\<in>set pre. \<forall>e'. pvcLister pl ?ns m \<noteq> Inl e'"
    unfolding referencedClaimNames_def by blast+
  from fails nf have "\<exists>e'. pvcLister pl ?ns n = Inl e'
              \<and> (Queue, Some e) = (if IsNotFound e' then (QueueSkip, None) else (Queue, Some e'))"
    by (intro exI[of _ e]) simp
  with names before
  have "\<exists>pre n post. claimNamesOf (Volumes (Spec pod)) = pre @ n # post
        \<and> (\<exists>e'. pvcLister pl ?ns n = Inl e'
              \<and> (Queue, Some e) = (if IsNotFound e' then (QueueSkip, None) else (Queue, Some e')))
        \<and> (\<forall>m\<in>set pre. \<forall>e'. pvcLister pl ?ns m \<noteq> Inl e')"
    by blast
  then have "?loop = Inl (Queue, Some e)"
    unfolding claimChange_loop_Inl_iff .
  then show "isSchedulableAfterPersistentVolumeClaimChange pl pod None
          (Some (PersistentVolumeClaimObject newClaim)) = Inr (Queue, Some e)"
    unfolding claimChange_created using ns by simp
qed

theorem claim_created_while_claim_missing_witness:
  "isSchedulableAfterPersistentVolumeClaimChange
       (pluginWith [((''ns'', ''data''), Inr [''ReadWriteOnce''])] [])
       (podWith ''ns'' [claimVolume ''data'', gceVolume ''d'' False, claimVolume ''logs'']) None
       (Some (PersistentVolumeClaimObject (claimNamed ''ns'' ''data''))) = Inr (QueueSkip, None)
   \<and> referencedClaimNames
       (podWith ''ns'' [claimVolume ''data'', gceVolume ''d'' False, claimVolume ''logs''])
       = [''data''] @ ''logs'' # []
   \<and> IsNotFound (ErrClaimNotFound ''logs not found'')
   \<and> isSchedulableAfterPersistentVolumeClaimChange
       (pluginWith [((''ns'', ''data''), Inr [''ReadWriteOnce'']),
                    ((''ns'', ''logs''), Inr [''ReadWriteOnce''])] [])
       (podWith ''ns'' [claimVolume ''data'', gceVolume ''d'' False, claimVolume ''logs'']) None
       (Some (PersistentVolumeClaimObject (claimNamed ''ns'' ''logs''))) = Inr (Queue, None)
   \<and> isSchedulableAfterPersistentVolumeClaimChange
       (pluginWith [((''ns'', ''data''), Inr [''ReadWriteOnce'']),
                    ((''ns'', ''logs''), Inl (ErrClaimLookup ''timeout''))] [])
       (podWith ''ns'' [claimVolume ''data'', gceVolume ''d'' False, claimVolume ''logs'']) None
       (Some (PersistentVolumeClaimObject (claimNamed ''ns'' ''data'')))
       = Inr (Queue, Some (ErrClaimLookup ''timeout''))"
  using
    claim_created_while_claim_missing
      [of "claimNamed ''ns'' ''data''"
          "podWith ''ns'' [claimVolume ''data'', gceVolume ''d'' False, claimVolume ''logs'']"
          "[''data'']" "''logs''" "[]"
          "pluginWith [((''ns'', ''data''), Inr [''ReadWriteOnce''])] []"
          "ErrClaimNotFound ''logs not found''"]
    claim_created_while_claim_missing
      [of "claimNamed ''ns'' ''logs''"
          "podWith ''ns'' [claimVolume ''data'', gceVolume ''d'' False, claimVolume ''logs'']"
          "[''data'']" "''logs''" "[]"
          "pluginWith [((''ns'', ''data''), Inr [''ReadWriteOnce'']),
                       ((''ns'', ''logs''), Inr [''ReadWriteOnce''])] []"
          "ErrClaimNotFound ''logs not found''"]
    claim_created_while_claim_missing
      [of "claimNamed ''ns'' ''data''"
          "podWith ''ns'' [claimVolume ''data'', gceVolume ''d'' False, claimVolume ''logs'']"
          "[''data'']" "''logs''" "[]"
          "pluginWith [((''ns'', ''data''), Inr [''ReadWriteOnce'']),
                       ((''ns'', ''logs''), Inl (ErrClaimLookup ''timeout''))] []"
          "ErrClaimLookup ''timeout''"]
  by (simp add: isSchedulableAfterPersistentVolumeClaimChange_def As_PersistentVolumeClaim_def
      pluginWith_def claimStore_def podWith_def claimVolume_def gceVolume_def noVolume_def
      claimNamed_def referencedClaimNames_def)

text \<open>
  Claim C10 asks for skip without error as soon as some claim of the pod is not found.
  With a pod that refers to \<open>a\<close>, whose lookup fails with another error, and then to
  \<open>b\<close>, which is not found, the creation of \<open>b\<close> gives requeue together with the
  error of the lookup of \<open>a\<close>.
\<close>

theorem claim_created_while_claim_missing_counterexample:
  "pvcLister (pluginWith [((''ns'', ''a''), Inl (ErrClaimLookup ''timeout''))] []) ''ns'' ''b''
     = Inl (ErrClaimNotFound ''b not found'')
   \<and> isSchedulableAfterPersistentVolumeClaimChange
       (pluginWith [((''ns'', ''a''), Inl (ErrClaimLookup ''timeout''))] [])
       (podWith ''ns'' [claimVolume ''a'', claimVolume ''b'']) None
       (Some (PersistentVolumeClaimObject (claimNamed ''ns'' ''b'')))
     = Inr (Queue, Some (ErrClaimLookup ''timeout''))"
  by (simp add: isSchedulableAfterPersistentVolumeClaimChange_def As_PersistentVolumeClaim_def
      pluginWith_def claimStore_def podWith_def claimVolume_def noVolume_def claimNamed_def)

end
